theory Spec2Isabelle
  imports Main "HOL-Library.Word" "HOL-Library.Char_ord" "HOL-Library.List_Lexorder"
    "HOL-Library.Multiset"
begin

unbundle bit_operations_syntax

section \<open>Errors\<close>

text \<open>
  A Go \<open>error\<close> is a value: a message, or an error wrapped with a message by
  \<open>errors.Wrapf\<close>.
\<close>

datatype error = Err string | Wrapf error string

section \<open>Kubernetes objects\<close>

datatype EnvVarSource = SecretKeyRef string string
  \<comment> \<open>\<open>SecretKeySelector\<close>: the key, and the name of the local object reference\<close>

record EnvVar =
  ev_Name :: string
  ev_Value :: string
  ev_ValueFrom :: "EnvVarSource option"

record VolumeMount =
  vm_Name :: string
  vm_MountPath :: string

record Volume =
  vol_Name :: string
  vol_SecretName :: "string option"

record Container =
  c_Name :: string
  c_Image :: string
  c_Command :: "string list"
  c_Env :: "EnvVar list"
  c_VolumeMounts :: "VolumeMount list"

record PodSpec =
  Containers :: "Container list"
  Volumes :: "Volume list"

text \<open>The annotations of a pod template are a Go map, which may be \<open>nil\<close> (\<open>None\<close>).\<close>

record PodTemplateSpec =
  Annotations :: "(string \<rightharpoonup> string) option"
  Spec :: PodSpec

text \<open>A stateful set: its object metadata and \<open>Spec.Template\<close>.\<close>

record StatefulSet =
  ss_Name :: string
  ss_Namespace :: string
  Template :: PodTemplateSpec

section \<open>OpenStack API types\<close>

record LoadBalancerClass =
  lbc_Name :: string
  FloatingSubnetID :: "string option"
  FloatingNetworkID :: "string option"
  SubnetID :: "string option"

text \<open>A slice of load-balancer classes may be \<open>nil\<close> (\<open>None\<close>), which the code tests.\<close>

record FloatingPool =
  fp_Name :: string
  fp_LoadBalancerClasses :: "LoadBalancerClass list option"

record CloudProfileConfig =
  KeyStoneURL :: string
  DHCPDomain :: "string option"
  RequestTimeout :: "string option"
  FloatingPools :: "FloatingPool list"

record OpenStackLoadBalancerClass =
  g_Name :: string
  g_FloatingSubnetID :: "string option"
  g_FloatingNetworkID :: "string option"
  g_SubnetID :: "string option"

record OpenStackFloatingPool =
  gfp_Name :: string
  gfp_LoadBalancerClasses :: "OpenStackLoadBalancerClass list"

text \<open>\<open>CloudProfile.Spec.OpenStack\<close> of the garden API group.\<close>

record OpenStackProfile =
  g_KeyStoneURL :: string
  g_DHCPDomain :: "string option"
  g_RequestTimeout :: "string option"
  g_FloatingPools :: "OpenStackFloatingPool list"

record Subnet =
  Purpose :: string
  subnet_ID :: string

text \<open>\<open>InfrastructureStatus.Networks\<close>: the floating pool and the subnets.\<close>

record InfrastructureStatus =
  FloatingPool_ID :: string
  FloatingPool_Name :: string
  Subnets :: "Subnet list"

record ControlPlaneConfig =
  LoadBalancerProvider :: string
  LoadBalancerClasses :: "LoadBalancerClass list option"

record Credentials =
  DomainName :: string
  TenantName :: string
  Username :: string
  Password :: string

section \<open>The cluster\<close>

text \<open>
  \<open>extensionscontroller.Cluster\<close>. The pointers that the code tests against \<open>nil\<close>
  are options. \<open>Shoot\<close> carries \<open>Spec.Cloud.OpenStack.FloatingPoolName\<close>.
  The accessors \<open>GetKubernetesVersion\<close>, \<open>IsSeedBackupNil\<close>, \<open>GetTechnicalID\<close> and
  \<open>GetUID\<close> of \<open>pkg/controller\<close> are not among the sources at hand; the record carries
  what each of them reads.
\<close>

record Cluster =
  CloudProfile :: "OpenStackProfile option"
  Shoot :: "string option"
  CoreCloudProfile :: "unit option"
  CoreShoot :: "unit option"
  KubernetesVersion :: string
  SeedBackup :: "unit option"
  TechnicalID :: string
  UID :: string

definition GetKubernetesVersion :: "Cluster \<Rightarrow> string" where
  "GetKubernetesVersion cluster = KubernetesVersion cluster"

definition IsSeedBackupNil :: "Cluster \<Rightarrow> bool" where
  "IsSeedBackupNil cluster = (SeedBackup cluster = None)"

definition GetTechnicalID :: "Cluster \<Rightarrow> string" where
  "GetTechnicalID cluster = TechnicalID cluster"

definition GetUID :: "Cluster \<Rightarrow> string" where
  "GetUID cluster = UID cluster"

text \<open>
  Modelled from the spec: \<open>common.GenerateBackupEntryName\<close>, which is absent from the
  sources. The backup prefix is \<open><technical-ID>--<cluster-UID>\<close>.
\<close>

definition GenerateBackupEntryName :: "string \<Rightarrow> string \<Rightarrow> string" where
  "GenerateBackupEntryName technicalID uid = technicalID @ ''--'' @ uid"

section \<open>Slice helpers of the webhook package\<close>

text \<open>
  Modelled from the spec: \<open>extensionswebhook.ContainerWithName\<close> and
  \<open>extensionswebhook.EnsureContainerWithName\<close>, which are absent from the sources.
  The identity of a container is its name. Finding returns the first container with the
  name; ensuring replaces that container in place (keeping its index) when there is
  one and appends otherwise. No element is removed.
\<close>

definition ContainerWithName :: "Container list \<Rightarrow> string \<Rightarrow> Container option" where
  "ContainerWithName items name = find (\<lambda>c. c_Name c = name) items"

fun ensureWithKey :: "('a \<Rightarrow> 'k) \<Rightarrow> 'a list \<Rightarrow> 'a \<Rightarrow> 'a list" where
  "ensureWithKey key [] item = [item]"
| "ensureWithKey key (x # xs) item =
     (if key x = key item then item # xs else x # ensureWithKey key xs item)"

definition EnsureContainerWithName :: "Container list \<Rightarrow> Container \<Rightarrow> Container list" where
  "EnsureContainerWithName items item = ensureWithKey c_Name items item"

text \<open>
  Modelled from the spec: the sibling merge operations on environment variables,
  volumes and volume mounts, absent from the sources, with the same semantics keyed
  by name.
\<close>

definition EnsureEnvVarWithName :: "EnvVar list \<Rightarrow> EnvVar \<Rightarrow> EnvVar list" where
  "EnsureEnvVarWithName items item = ensureWithKey ev_Name items item"

definition EnsureVolumeWithName :: "Volume list \<Rightarrow> Volume \<Rightarrow> Volume list" where
  "EnsureVolumeWithName items item = ensureWithKey vol_Name items item"

definition EnsureVolumeMountWithName :: "VolumeMount list \<Rightarrow> VolumeMount \<Rightarrow> VolumeMount list" where
  "EnsureVolumeMountWithName items item = ensureWithKey vm_Name items item"

text \<open>
  What the specification says of every merge operation \<open>f\<close> with the identity \<open>key\<close>:
  an element whose key is not in the list is appended; an element whose key is in
  the list replaces, in place, the first element with that key; no element is
  removed.
\<close>

definition upserts :: "('a \<Rightarrow> 'k) \<Rightarrow> ('a list \<Rightarrow> 'a \<Rightarrow> 'a list) \<Rightarrow> bool" where
  "upserts key f \<longleftrightarrow>
     (\<forall>xs item.
        (find (\<lambda>x. key x = key item) xs = None \<longrightarrow> f xs item = xs @ [item])
        \<and> (\<forall>i < length xs. key (xs ! i) = key item \<and> (\<forall>j < i. key (xs ! j) \<noteq> key item)
              \<longrightarrow> f xs item = xs[i := item])
        \<and> length xs \<le> length (f xs item)
        \<and> filter (\<lambda>x. key x \<noteq> key item) (f xs item) = filter (\<lambda>x. key x \<noteq> key item) xs)"

section \<open>Checksum of a secret\<close>

subsection \<open>SHA-256 (FIPS 180-4)\<close>

type_synonym w32 = "32 word"
type_synonym byte = "8 word"

definition rotr :: "nat \<Rightarrow> w32 \<Rightarrow> w32" where
  "rotr n x = drop_bit n x OR push_bit (32 - n) x"

definition Ch :: "w32 \<Rightarrow> w32 \<Rightarrow> w32 \<Rightarrow> w32" where
  "Ch x y z = (x AND y) XOR (NOT x AND z)"

definition Maj :: "w32 \<Rightarrow> w32 \<Rightarrow> w32 \<Rightarrow> w32" where
  "Maj x y z = (x AND y) XOR (x AND z) XOR (y AND z)"

definition bsig0 :: "w32 \<Rightarrow> w32" where
  "bsig0 x = rotr 2 x XOR rotr 13 x XOR rotr 22 x"

definition bsig1 :: "w32 \<Rightarrow> w32" where
  "bsig1 x = rotr 6 x XOR rotr 11 x XOR rotr 25 x"

definition ssig0 :: "w32 \<Rightarrow> w32" where
  "ssig0 x = rotr 7 x XOR rotr 18 x XOR drop_bit 3 x"

definition ssig1 :: "w32 \<Rightarrow> w32" where
  "ssig1 x = rotr 17 x XOR rotr 19 x XOR drop_bit 10 x"

text \<open>
  The round constants and the initial hash value of the standard, written in decimal:
  the first is \<open>0x428a2f98\<close>, the last \<open>0xc67178f2\<close>; the initial hash value starts
  with \<open>0x6a09e667\<close>.
\<close>

definition K256 :: "w32 list" where
  "K256 = [
    1116352408, 1899447441, 3049323471, 3921009573, 961987163, 1508970993, 2453635748, 2870763221,
    3624381080, 310598401, 607225278, 1426881987, 1925078388, 2162078206, 2614888103, 3248222580,
    3835390401, 4022224774, 264347078, 604807628, 770255983, 1249150122, 1555081692, 1996064986,
    2554220882, 2821834349, 2952996808, 3210313671, 3336571891, 3584528711, 113926993, 338241895,
    666307205, 773529912, 1294757372, 1396182291, 1695183700, 1986661051, 2177026350, 2456956037,
    2730485921, 2820302411, 3259730800, 3345764771, 3516065817, 3600352804, 4094571909, 275423344,
    430227734, 506948616, 659060556, 883997877, 958139571, 1322822218, 1537002063, 1747873779,
    1955562222, 2024104815, 2227730452, 2361852424, 2428436474, 2756734187, 3204031479, 3329325298]"

definition H256 :: "w32 list" where
  "H256 = [1779033703, 3144134277, 1013904242, 2773480762,
           1359893119, 2600822924, 528734635, 1541459225]"

text \<open>The message schedule is built newest word first: \<open>ws ! i\<close> is the word \<open>i + 1\<close> back.\<close>

fun msgSchedule :: "nat \<Rightarrow> w32 list \<Rightarrow> w32 list" where
  "msgSchedule 0 ws = ws"
| "msgSchedule (Suc n) ws =
     msgSchedule n ((ssig1 (ws ! 1) + ws ! 6 + ssig0 (ws ! 14) + ws ! 15) # ws)"

text \<open>One round on the working variables \<open>[a, b, c, d, e, f, g, h]\<close>.\<close>

definition round256 :: "w32 list \<Rightarrow> w32 \<times> w32 \<Rightarrow> w32 list" where
  "round256 s kw =
     (let t1 = s ! 7 + bsig1 (s ! 4) + Ch (s ! 4) (s ! 5) (s ! 6) + fst kw + snd kw;
          t2 = bsig0 (s ! 0) + Maj (s ! 0) (s ! 1) (s ! 2)
      in [t1 + t2, s ! 0, s ! 1, s ! 2, s ! 3 + t1, s ! 4, s ! 5, s ! 6])"

definition compress :: "w32 list \<Rightarrow> w32 list \<Rightarrow> w32 list" where
  "compress hs block =
     map2 (+) hs (foldl round256 hs (zip K256 (rev (msgSchedule 48 (rev block)))))"

fun be32 :: "byte list \<Rightarrow> w32 list" where
  "be32 (a # b # c # d # bs) =
     (push_bit 24 (ucast a) OR push_bit 16 (ucast b) OR push_bit 8 (ucast c) OR ucast d) # be32 bs"
| "be32 _ = []"

definition be_bytes :: "64 word \<Rightarrow> byte list" where
  "be_bytes v = map (\<lambda>i. ucast (drop_bit (8 * i) v)) [7, 6, 5, 4, 3, 2, 1, 0]"

definition pad :: "byte list \<Rightarrow> byte list" where
  "pad m = m @ [0x80] @ replicate ((119 - length m mod 64) mod 64) 0
             @ be_bytes (of_nat (8 * length m))"

fun blocks :: "nat \<Rightarrow> w32 list \<Rightarrow> w32 list list" where
  "blocks 0 ws = []"
| "blocks (Suc n) ws = take 16 ws # blocks n (drop 16 ws)"

definition sha256 :: "byte list \<Rightarrow> byte list" where
  "sha256 m =
     (let ws = be32 (pad m)
      in concat (map (\<lambda>w. map (\<lambda>i. ucast (drop_bit (8 * i) w)) [3, 2, 1, 0])
           (foldl compress H256 (blocks (length ws div 16) ws))))"

subsection \<open>Encodings\<close>

definition bytes :: "string \<Rightarrow> byte list" where
  "bytes s = map of_char s"

definition hexdigit :: "byte \<Rightarrow> char" where
  "hexdigit n = ''0123456789abcdef'' ! unat (n AND 15)"

definition hex :: "byte list \<Rightarrow> string" where
  "hex bs = concat (map (\<lambda>b. [hexdigit (drop_bit 4 b), hexdigit b]) bs)"

definition b64digit :: "byte \<Rightarrow> char" where
  "b64digit n =
     ''ABCDEFGHIJKLMNOPQRSTUVWXYZabcdefghijklmnopqrstuvwxyz0123456789+/'' ! unat (n AND 63)"

text \<open>
  Standard base64 with padding, as \<open>encoding/json\<close> writes a byte slice: three bytes
  give four digits of six bits each.
\<close>

fun base64 :: "byte list \<Rightarrow> string" where
  "base64 (a # b # c # bs) =
     [b64digit (drop_bit 2 a),
      b64digit (push_bit 4 a OR drop_bit 4 b),
      b64digit (push_bit 2 b OR drop_bit 6 c),
      b64digit c] @ base64 bs"
| "base64 [a, b] =
     [b64digit (drop_bit 2 a),
      b64digit (push_bit 4 a OR drop_bit 4 b),
      b64digit (push_bit 2 b),
      CHR ''='']"
| "base64 [a] =
     [b64digit (drop_bit 2 a),
      b64digit (push_bit 4 a),
      CHR ''='', CHR ''='']"
| "base64 [] = []"

definition dquote :: char where
  "dquote = CHR 0x22"

fun joinWith :: "string \<Rightarrow> string list \<Rightarrow> string" where
  "joinWith sep [] = []"
| "joinWith sep [x] = x"
| "joinWith sep (x # y # ys) = x @ sep @ joinWith sep (y # ys)"

text \<open>
  The data of a secret is a Go \<open>map[string][]byte\<close>, here an association list with one
  pair for each key. \<open>json.Marshal\<close> writes the keys in sorted order and each value in
  base64. The keys of a secret consist of alphanumeric characters, \<open>-\<close>, \<open>_\<close> and \<open>.\<close>,
  which JSON does not escape.
\<close>

type_synonym SecretData = "(string \<times> string) list"

definition marshalEntry :: "string \<times> string \<Rightarrow> string" where
  "marshalEntry kv =
     [dquote] @ fst kv @ [dquote] @ '':'' @ [dquote] @ base64 (bytes (snd kv)) @ [dquote]"

definition marshalData :: "SecretData \<Rightarrow> string" where
  "marshalData d = ''{'' @ joinWith '','' (map marshalEntry (sort_key fst d)) @ ''}''"

text \<open>
  Modelled from the spec: the checksum of the data of a secret, whose code is absent
  from the sources: the SHA-256 hex digest of the data payload, the payload being
  the JSON encoding of the data map.
\<close>

definition ComputeChecksum :: "SecretData \<Rightarrow> string" where
  "ComputeChecksum d = hex (sha256 (bytes (marshalData d)))"

section \<open>The control plane webhook package\<close>

text \<open>
  \<open>controlplane.BackupRestoreContainerName\<close> and the names of the two etcd stateful
  sets, as the tests and the specification spell them.
\<close>

definition BackupRestoreContainerName :: string where
  "BackupRestoreContainerName = ''backup-restore''"

definition StatefulSetNameETCDMain :: string where
  "StatefulSetNameETCDMain = ''etcd-main''"

definition StatefulSetNameETCDEvents :: string where
  "StatefulSetNameETCDEvents = ''etcd-events''"

text \<open>
  The functions \<open>controlplane.DetermineBackupSchedule\<close> and
  \<open>controlplane.GetBackupRestoreContainer\<close> and the string constants of the packages
  \<open>controlplane\<close> and \<open>aws\<close> are not among the sources at hand. They are parameters
  of the model, collected in one record. The arguments of
  \<open>GetBackupRestoreContainer\<close> are, in the order of the call: name, volume claim
  template name, schedule, provider, prefix, image, a seventh argument that is always
  \<open>nil\<close> here, the environment and the volume mounts.
\<close>

record pkg =
  DetermineBackupSchedule :: "Container option \<Rightarrow> Cluster \<Rightarrow> error + string"
  GetBackupRestoreContainer ::
    "string \<Rightarrow> string \<Rightarrow> string \<Rightarrow> string \<Rightarrow> string \<Rightarrow> string \<Rightarrow>
     (string \<times> string) list option \<Rightarrow> EnvVar list \<Rightarrow> VolumeMount list \<Rightarrow> Container"
  EtcdMainVolumeClaimTemplateName :: string
  ETCDBackupRestoreImageName :: string
  StorageProviderName :: string
  BackupSecretName :: string
  BucketName :: string
  Region :: string
  AccessKeyID :: string
  SecretAccessKey :: string

text \<open>
  Modelled from the spec: \<open>controlplane.EnsureSecretChecksumAnnotation\<close>, which is
  absent from the sources. It fetches the secret with the client, which may fail
  and then leaves the template as it is, computes the checksum of the data, and
  writes it under the key \<open>checksum/secret-<name>\<close> into the annotations of the
  template, creating the map if there is none. The client is the function that \<open>Get\<close>
  computes for a secret: from the namespace and the name to the data or an error.
\<close>

type_synonym client = "string \<Rightarrow> string \<Rightarrow> error + SecretData"

definition EnsureSecretChecksumAnnotation ::
  "PodTemplateSpec \<Rightarrow> client \<Rightarrow> string \<Rightarrow> string \<Rightarrow> PodTemplateSpec \<times> error option" where
  "EnsureSecretChecksumAnnotation template c namespace name =
     (case c namespace name of
        Inl err \<Rightarrow> (template, Some err)
      | Inr d \<Rightarrow>
          (template\<lparr>Annotations :=
             Some ((case Annotations template of None \<Rightarrow> Map.empty | Some m \<Rightarrow> m)
                     (''checksum/secret-'' @ name \<mapsto> ComputeChecksum d))\<rparr>,
           None))"

text \<open>The annotation of a pod template under a key, if there is one.\<close>

definition annotationAt :: "PodTemplateSpec \<Rightarrow> string \<Rightarrow> string option" where
  "annotationAt template key = (case Annotations template of None \<Rightarrow> None | Some m \<Rightarrow> m key)"

section \<open>The control plane backup ensurer of the AWS provider\<close>

record ETCDBackup =
  Schedule :: "string option"

text \<open>
  The image vector is the function that \<open>FindImage\<close> computes: from the name of the
  image and the target version to \<open>image.String()\<close> or an error. The logger is
  left out: logging changes no value.
\<close>

record ensurer =
  etcdBackup :: "ETCDBackup option"
  imageVector :: "string \<Rightarrow> string \<Rightarrow> error + string"
  client :: client

definition backupEnv :: "pkg \<Rightarrow> EnvVar list" where
  "backupEnv p =
     [\<lparr>ev_Name = ''STORAGE_CONTAINER'', ev_Value = [],
        ev_ValueFrom = Some (SecretKeyRef (BucketName p) (BackupSecretName p))\<rparr>,
      \<lparr>ev_Name = ''AWS_REGION'', ev_Value = [],
        ev_ValueFrom = Some (SecretKeyRef (Region p) (BackupSecretName p))\<rparr>,
      \<lparr>ev_Name = ''AWS_ACCESS_KEY_ID'', ev_Value = [],
        ev_ValueFrom = Some (SecretKeyRef (AccessKeyID p) (BackupSecretName p))\<rparr>,
      \<lparr>ev_Name = ''AWS_SECRET_ACCESS_KEY'', ev_Value = [],
        ev_ValueFrom = Some (SecretKeyRef (SecretAccessKey p) (BackupSecretName p))\<rparr>]"

text \<open>
  The provider, the prefix, the environment and the name of the volume claim
  template, as \<open>ensureBackupRestoreContainer\<close> determines them. A \<open>nil\<close> slice of
  environment variables is the empty list.
\<close>

definition backupSettings ::
  "pkg \<Rightarrow> string \<Rightarrow> Cluster \<Rightarrow> string \<times> string \<times> EnvVar list \<times> string" where
  "backupSettings p name cluster =
     (if name = StatefulSetNameETCDMain then
        (if IsSeedBackupNil cluster then ([], [], [], EtcdMainVolumeClaimTemplateName p)
         else (StorageProviderName p,
               GenerateBackupEntryName (GetTechnicalID cluster) (GetUID cluster),
               backupEnv p,
               EtcdMainVolumeClaimTemplateName p))
      else ([], [], [], name))"

definition backupSchedule ::
  "pkg \<Rightarrow> ensurer \<Rightarrow> Container option \<Rightarrow> Cluster \<Rightarrow> error + string" where
  "backupSchedule p e existingContainer cluster =
     (case etcdBackup e of
        None \<Rightarrow> DetermineBackupSchedule p existingContainer cluster
      | Some b \<Rightarrow>
          (case Schedule b of
             None \<Rightarrow> DetermineBackupSchedule p existingContainer cluster
           | Some s \<Rightarrow> Inr s))"

definition ensureBackupRestoreContainer ::
  "pkg \<Rightarrow> ensurer \<Rightarrow> Container option \<Rightarrow> string \<Rightarrow> Cluster \<Rightarrow> error + Container" where
  "ensureBackupRestoreContainer p e existingContainer name cluster =
     (case imageVector e (ETCDBackupRestoreImageName p) (GetKubernetesVersion cluster) of
        Inl err \<Rightarrow> Inl (Wrapf err (''could not find image '' @ ETCDBackupRestoreImageName p))
      | Inr img \<Rightarrow>
          (case backupSettings p name cluster of
             (provider, prefix, env, volumeClaimTemplateName) \<Rightarrow>
               (case backupSchedule p e existingContainer cluster of
                  Inl err \<Rightarrow> Inl err
                | Inr schedule \<Rightarrow>
                    Inr (GetBackupRestoreContainer p name volumeClaimTemplateName schedule
                           provider prefix img None env []))))"

text \<open>
  The Go functions change the object behind a pointer and return an error or \<open>nil\<close>;
  the model returns the object after the call together with the error.
\<close>

definition ensureContainers ::
  "pkg \<Rightarrow> ensurer \<Rightarrow> PodSpec \<Rightarrow> string \<Rightarrow> Cluster \<Rightarrow> PodSpec \<times> error option" where
  "ensureContainers p e ps name cluster =
     (case ensureBackupRestoreContainer p e
             (ContainerWithName (Containers ps) BackupRestoreContainerName) name cluster of
        Inl err \<Rightarrow> (ps, Some err)
      | Inr c \<Rightarrow> (ps\<lparr>Containers := EnsureContainerWithName (Containers ps) c\<rparr>, None))"

definition ensureChecksumAnnotations ::
  "pkg \<Rightarrow> ensurer \<Rightarrow> PodTemplateSpec \<Rightarrow> string \<Rightarrow> string \<Rightarrow> bool \<Rightarrow>
   PodTemplateSpec \<times> error option" where
  "ensureChecksumAnnotations p e template namespace name backupConfigured =
     (if name = StatefulSetNameETCDMain \<and> backupConfigured
      then EnsureSecretChecksumAnnotation template (client e) namespace (BackupSecretName p)
      else (template, None))"

definition EnsureETCDStatefulSet ::
  "pkg \<Rightarrow> ensurer \<Rightarrow> StatefulSet \<Rightarrow> Cluster \<Rightarrow> StatefulSet \<times> error option" where
  "EnsureETCDStatefulSet p e ss cluster =
     (case ensureContainers p e (Spec (Template ss)) (ss_Name ss) cluster of
        (ps, Some err) \<Rightarrow> (ss\<lparr>Template := (Template ss)\<lparr>Spec := ps\<rparr>\<rparr>, Some err)
      | (ps, None) \<Rightarrow>
          (case ensureChecksumAnnotations p e ((Template ss)\<lparr>Spec := ps\<rparr>)
                  (ss_Namespace ss) (ss_Name ss) (\<not> IsSeedBackupNil cluster) of
             (template, r) \<Rightarrow> (ss\<lparr>Template := template\<rparr>, r)))"

section \<open>The values provider of the OpenStack provider\<close>

text \<open>
  The chart values are a Go \<open>map[string]interface{}\<close>. The values that
  \<open>getConfigChartValues\<close> stores are strings, pointers to strings (\<open>nil\<close> is \<open>None\<close>)
  and a slice of maps.
\<close>

datatype "value" =
    VString string
  | VStringPtr "string option"
  | VMaps "(string \<Rightarrow> value option) list"

type_synonym "values" = "string \<Rightarrow> value option"

definition DefaultLoadBalancerClass :: string where
  "DefaultLoadBalancerClass = ''default''"

definition PrivateLoadBalancerClass :: string where
  "PrivateLoadBalancerClass = ''private''"

definition PurposeNodes :: string where
  "PurposeNodes = ''nodes''"

text \<open>
  Modelled from the spec: \<open>utils.IsEmptyString\<close> and \<open>utils.SetStringValue\<close>, absent
  from the sources. A pointer to a string is empty when it is \<open>nil\<close> or points to the
  empty string; a value is stored under the key when it is not empty, and an empty
  one leaves the map as it is.
\<close>

definition IsEmptyString :: "string option \<Rightarrow> bool" where
  "IsEmptyString s = (case s of None \<Rightarrow> True | Some v \<Rightarrow> v = [])"

definition SetStringValue :: "values \<Rightarrow> string \<Rightarrow> string option \<Rightarrow> values" where
  "SetStringValue vals key v =
     (case v of
        None \<Rightarrow> vals
      | Some x \<Rightarrow> if x = [] then vals else vals(key \<mapsto> VString x))"

text \<open>
  Modelled from the spec: \<open>helper.FindSubnetByPurpose\<close>, absent from the sources: the
  first subnet with the purpose, or an error when there is none.
\<close>

definition FindSubnetByPurpose :: "Subnet list \<Rightarrow> string \<Rightarrow> error + Subnet" where
  "FindSubnetByPurpose subnets purpose =
     (case find (\<lambda>s. Purpose s = purpose) subnets of
        None \<Rightarrow> Inl (Err (''cannot find subnet with purpose '' @ purpose))
      | Some s \<Rightarrow> Inr s)"

definition gardenV1beta1OpenStackLoadBalancerClassToOpenStackV1alpha1LoadBalancerClass ::
  "OpenStackLoadBalancerClass list \<Rightarrow> LoadBalancerClass list" where
  "gardenV1beta1OpenStackLoadBalancerClassToOpenStackV1alpha1LoadBalancerClass loadBalancerClasses =
     map (\<lambda>c. \<lparr>lbc_Name = g_Name c,
                FloatingSubnetID = g_FloatingSubnetID c,
                FloatingNetworkID = g_FloatingNetworkID c,
                SubnetID = g_SubnetID c\<rparr>) loadBalancerClasses"

text \<open>The two loops over the floating pools, each leaving at the first pool with the name.\<close>

fun gardenPoolClasses ::
  "OpenStackFloatingPool list \<Rightarrow> string \<Rightarrow> LoadBalancerClass list option" where
  "gardenPoolClasses [] name = None"
| "gardenPoolClasses (pool # pools) name =
     (if gfp_Name pool = name
      then Some (gardenV1beta1OpenStackLoadBalancerClassToOpenStackV1alpha1LoadBalancerClass
                   (gfp_LoadBalancerClasses pool))
      else gardenPoolClasses pools name)"

fun poolClasses :: "FloatingPool list \<Rightarrow> string \<Rightarrow> LoadBalancerClass list option" where
  "poolClasses [] name = None"
| "poolClasses (pool # pools) name =
     (if fp_Name pool = name then fp_LoadBalancerClasses pool else poolClasses pools name)"

text \<open>
  \<open>cpConfig.LoadBalancerClasses\<close> as the code leaves it before the loops over the
  classes: when it is \<open>nil\<close>, the classes of the floating pool of the shoot are
  written into it.
\<close>

definition loadBalancerClasses ::
  "ControlPlaneConfig \<Rightarrow> InfrastructureStatus \<Rightarrow> CloudProfileConfig option \<Rightarrow> Cluster \<Rightarrow>
   LoadBalancerClass list option" where
  "loadBalancerClasses cpConfig infraStatus cloudProfileConfig cluster =
     (case LoadBalancerClasses cpConfig of
        Some cs \<Rightarrow> Some cs
      | None \<Rightarrow>
          (case (CloudProfile cluster, Shoot cluster) of
             (Some profile, Some floatingPoolName) \<Rightarrow>
               gardenPoolClasses (g_FloatingPools profile) floatingPoolName
           | _ \<Rightarrow>
               (case (CoreCloudProfile cluster, CoreShoot cluster, cloudProfileConfig) of
                  (Some _, Some _, Some config) \<Rightarrow>
                    poolClasses (FloatingPools config) (FloatingPool_Name infraStatus)
                | _ \<Rightarrow> None)))"

text \<open>Ranging over a \<open>nil\<close> slice runs the body of the loop not at all.\<close>

definition classList :: "LoadBalancerClass list option \<Rightarrow> LoadBalancerClass list" where
  "classList cs = (case cs of None \<Rightarrow> [] | Some l \<Rightarrow> l)"

text \<open>The loop for the class named \<open>default\<close>, with its \<open>break\<close>.\<close>

fun setDefaultClass :: "values \<Rightarrow> LoadBalancerClass list \<Rightarrow> values" where
  "setDefaultClass vals [] = vals"
| "setDefaultClass vals (class # classes) =
     (if lbc_Name class = DefaultLoadBalancerClass
      then SetStringValue
             (SetStringValue
                (SetStringValue vals ''floatingNetworkID'' (FloatingNetworkID class))
                ''floatingSubnetID'' (FloatingSubnetID class))
             ''subnetID'' (SubnetID class)
      else setDefaultClass vals classes)"

text \<open>The loop for the class named \<open>private\<close>, with its \<open>break\<close>.\<close>

fun setPrivateClass :: "values \<Rightarrow> LoadBalancerClass list \<Rightarrow> values" where
  "setPrivateClass vals [] = vals"
| "setPrivateClass vals (class # classes) =
     (if lbc_Name class = PrivateLoadBalancerClass
      then SetStringValue vals ''subnetID'' (SubnetID class)
      else setPrivateClass vals classes)"

text \<open>The body of the last loop: the map of one class.\<close>

definition floatingClass :: "InfrastructureStatus \<Rightarrow> LoadBalancerClass \<Rightarrow> values" where
  "floatingClass infraStatus class =
     SetStringValue
       (SetStringValue
          (if \<not> IsEmptyString (FloatingSubnetID class) \<and> IsEmptyString (FloatingNetworkID class)
           then [''name'' \<mapsto> VString (lbc_Name class),
                 ''floatingNetworkID'' \<mapsto> VString (FloatingPool_ID infraStatus)]
           else SetStringValue [''name'' \<mapsto> VString (lbc_Name class)]
                  ''floatingNetworkID'' (FloatingNetworkID class))
          ''floatingSubnetID'' (FloatingSubnetID class))
       ''subnetID'' (SubnetID class)"

text \<open>The last loop appends to a slice that starts as \<open>nil\<close> (\<open>None\<close>).\<close>

fun appendFloatingClasses ::
  "InfrastructureStatus \<Rightarrow> values list option \<Rightarrow> LoadBalancerClass list \<Rightarrow> values list option" where
  "appendFloatingClasses infraStatus floatingClasses [] = floatingClasses"
| "appendFloatingClasses infraStatus floatingClasses (class # classes) =
     appendFloatingClasses infraStatus
       (Some ((case floatingClasses of None \<Rightarrow> [] | Some l \<Rightarrow> l) @ [floatingClass infraStatus class]))
       classes"

text \<open>
  The key stone URL, the DHCP domain and the request timeout, from the cloud profile
  of the garden API group when the cluster has one, else from the cloud profile
  configuration.
\<close>

definition cloudProfileSettings ::
  "CloudProfileConfig option \<Rightarrow> Cluster \<Rightarrow> string \<times> string option \<times> string option" where
  "cloudProfileSettings cloudProfileConfig cluster =
     (case CloudProfile cluster of
        Some profile \<Rightarrow> (g_KeyStoneURL profile, g_DHCPDomain profile, g_RequestTimeout profile)
      | None \<Rightarrow>
          (case (CoreCloudProfile cluster, cloudProfileConfig) of
             (Some _, Some config) \<Rightarrow> (KeyStoneURL config, DHCPDomain config, RequestTimeout config)
           | _ \<Rightarrow> ([], None, None)))"

text \<open>
  \<open>getConfigChartValues\<close>. The control plane resource enters only the message of
  the error, as its object name \<open>cp\<close>.
\<close>

definition getConfigChartValues ::
  "ControlPlaneConfig \<Rightarrow> InfrastructureStatus \<Rightarrow> CloudProfileConfig option \<Rightarrow> string \<Rightarrow>
   Credentials \<Rightarrow> Cluster \<Rightarrow> error + values" where
  "getConfigChartValues cpConfig infraStatus cloudProfileConfig cp c cluster =
     (case FindSubnetByPurpose (Subnets infraStatus) PurposeNodes of
        Inl err \<Rightarrow>
          Inl (Wrapf err
            (''could not determine subnet from infrastructureProviderStatus of controlplane ''
               @ cp))
      | Inr subnet \<Rightarrow>
          (case cloudProfileSettings cloudProfileConfig cluster of
             (keyStoneURL, dhcpDomain, requestTimeout) \<Rightarrow>
               (let vals = [''kubernetesVersion'' \<mapsto> VString (GetKubernetesVersion cluster),
                            ''domainName'' \<mapsto> VString (DomainName c),
                            ''tenantName'' \<mapsto> VString (TenantName c),
                            ''username'' \<mapsto> VString (Username c),
                            ''password'' \<mapsto> VString (Password c),
                            ''lbProvider'' \<mapsto> VString (LoadBalancerProvider cpConfig),
                            ''floatingNetworkID'' \<mapsto> VString (FloatingPool_ID infraStatus),
                            ''subnetID'' \<mapsto> VString (subnet_ID subnet),
                            ''authUrl'' \<mapsto> VString keyStoneURL,
                            ''dhcpDomain'' \<mapsto> VStringPtr dhcpDomain,
                            ''requestTimeout'' \<mapsto> VStringPtr requestTimeout];
                    classes = classList
                      (loadBalancerClasses cpConfig infraStatus cloudProfileConfig cluster);
                    vals = setPrivateClass (setDefaultClass vals classes) classes
                in (case appendFloatingClasses infraStatus None classes of
                      None \<Rightarrow> Inr vals
                    | Some floatingClasses \<Rightarrow>
                        Inr (vals(''floatingClasses'' \<mapsto> VMaps floatingClasses))))))"

text \<open>The value that a call stored under a key, if the call returned a map.\<close>

definition valueAt :: "error + values \<Rightarrow> string \<Rightarrow> value option" where
  "valueAt r key = (case r of Inl _ \<Rightarrow> None | Inr vals \<Rightarrow> vals key)"

section \<open>The mutation dispatcher\<close>

record Service =
  svc_Name :: string
  svc_Namespace :: string
  svc_Annotations :: "(string \<rightharpoonup> string) option"

record Deployment =
  dep_Name :: string
  dep_Namespace :: string
  dep_Template :: PodTemplateSpec

record Unit =
  unit_Name :: string
  unit_Content :: "string option"

record File =
  file_Path :: string
  file_Content :: "string option"
  file_Encoding :: string

record OperatingSystemConfig =
  osc_Name :: string
  osc_Namespace :: string
  Units :: "Unit list"
  Files :: "File list"

text \<open>
  The object of an admission request, by its kind. A kind other than the four that the
  dispatcher knows is an \<open>OtherObject\<close> with the name of the kind and of the object.
\<close>

datatype Object =
    ServiceObject Service
  | DeploymentObject Deployment
  | StatefulSetObject StatefulSet
  | OperatingSystemConfigObject OperatingSystemConfig
  | OtherObject string string

definition DeploymentNameKubeAPIServer :: string where
  "DeploymentNameKubeAPIServer = ''kube-apiserver''"

definition DeploymentNameKubeControllerManager :: string where
  "DeploymentNameKubeControllerManager = ''kube-controller-manager''"

definition DeploymentNameKubeScheduler :: string where
  "DeploymentNameKubeScheduler = ''kube-scheduler''"

text \<open>
  The \<open>Ensurer\<close> interface: one hook for each object that the dispatcher routes. A hook
  returns the object as it leaves it and an error or \<open>nil\<close>. The hooks on an operating
  system config stand for the hook of the provider together with the decoding and
  encoding of the part of the config that the hook works on.
\<close>

record Ensurer =
  EnsureKubeAPIServerService :: "Service \<Rightarrow> Service \<times> error option"
  EnsureKubeAPIServerDeployment :: "Deployment \<Rightarrow> Deployment \<times> error option"
  EnsureKubeControllerManagerDeployment :: "Deployment \<Rightarrow> Deployment \<times> error option"
  EnsureKubeSchedulerDeployment :: "Deployment \<Rightarrow> Deployment \<times> error option"
  EnsureETCDStatefulSetHook :: "StatefulSet \<Rightarrow> Cluster \<Rightarrow> StatefulSet \<times> error option"
  EnsureKubeletServiceUnitOptions ::
    "OperatingSystemConfig \<Rightarrow> OperatingSystemConfig \<times> error option"
  EnsureKubeletConfiguration ::
    "OperatingSystemConfig \<Rightarrow> OperatingSystemConfig \<times> error option"
  EnsureKubernetesGeneralConfiguration ::
    "OperatingSystemConfig \<Rightarrow> OperatingSystemConfig \<times> error option"
  ShouldProvisionKubeletCloudProviderConfig :: bool
  EnsureKubeletCloudProviderConfig ::
    "OperatingSystemConfig \<Rightarrow> OperatingSystemConfig \<times> error option"
  EnsureAdditionalUnits :: "OperatingSystemConfig \<Rightarrow> OperatingSystemConfig \<times> error option"
  EnsureAdditionalFiles :: "OperatingSystemConfig \<Rightarrow> OperatingSystemConfig \<times> error option"

text \<open>
  The mutator holds the ensurer and, through its client, the lookup of the cluster of
  a namespace, which may fail.
\<close>

record mutator =
  mutator_ensurer :: Ensurer
  getCluster :: "string \<Rightarrow> error + Cluster"

text \<open>A chain of hooks: a failure aborts it, with the object as the hooks before left it.\<close>

fun runChain :: "('a \<Rightarrow> 'a \<times> error option) list \<Rightarrow> 'a \<Rightarrow> 'a \<times> error option" where
  "runChain [] x = (x, None)"
| "runChain (h # hs) x =
     (case h x of
        (y, Some err) \<Rightarrow> (y, Some err)
      | (y, None) \<Rightarrow> runChain hs y)"

definition mutateOperatingSystemConfig ::
  "Ensurer \<Rightarrow> OperatingSystemConfig \<Rightarrow> OperatingSystemConfig \<times> error option" where
  "mutateOperatingSystemConfig e osc =
     runChain
       ([EnsureKubeletServiceUnitOptions e,
         EnsureKubeletConfiguration e,
         EnsureKubernetesGeneralConfiguration e]
        @ (if ShouldProvisionKubeletCloudProviderConfig e
           then [EnsureKubeletCloudProviderConfig e] else [])
        @ [EnsureAdditionalUnits e, EnsureAdditionalFiles e])
       osc"

text \<open>
  Modelled from the spec: \<open>Mutate\<close> of the generic mutator, which is absent from the
  sources (its test is there). The routing key is the kind and, for the named
  components, the name; a stateful set that is routed needs the cluster of its
  namespace first, and a failure of that lookup aborts the mutation; an operating
  system config runs the chain of hooks. Every other object passes through.
\<close>

fun Mutate :: "mutator \<Rightarrow> Object \<Rightarrow> Object \<times> error option" where
  "Mutate m (ServiceObject x) =
     (if svc_Name x = DeploymentNameKubeAPIServer
      then (case EnsureKubeAPIServerService (mutator_ensurer m) x of
              (y, r) \<Rightarrow> (ServiceObject y, r))
      else (ServiceObject x, None))"
| "Mutate m (DeploymentObject x) =
     (if dep_Name x = DeploymentNameKubeAPIServer
      then (case EnsureKubeAPIServerDeployment (mutator_ensurer m) x of
              (y, r) \<Rightarrow> (DeploymentObject y, r))
      else if dep_Name x = DeploymentNameKubeControllerManager
      then (case EnsureKubeControllerManagerDeployment (mutator_ensurer m) x of
              (y, r) \<Rightarrow> (DeploymentObject y, r))
      else if dep_Name x = DeploymentNameKubeScheduler
      then (case EnsureKubeSchedulerDeployment (mutator_ensurer m) x of
              (y, r) \<Rightarrow> (DeploymentObject y, r))
      else (DeploymentObject x, None))"
| "Mutate m (StatefulSetObject x) =
     (if ss_Name x = StatefulSetNameETCDMain \<or> ss_Name x = StatefulSetNameETCDEvents
      then (case getCluster m (ss_Namespace x) of
              Inl err \<Rightarrow> (StatefulSetObject x, Some err)
            | Inr cluster \<Rightarrow>
                (case EnsureETCDStatefulSetHook (mutator_ensurer m) x cluster of
                   (y, r) \<Rightarrow> (StatefulSetObject y, r)))
      else (StatefulSetObject x, None))"
| "Mutate m (OperatingSystemConfigObject x) =
     (case mutateOperatingSystemConfig (mutator_ensurer m) x of
        (y, r) \<Rightarrow> (OperatingSystemConfigObject y, r))"
| "Mutate m (OtherObject kind name) = (OtherObject kind name, None)"

text \<open>The kind and the name of an object, and the pairs that the dispatcher routes.\<close>

fun objectKind :: "Object \<Rightarrow> string" where
  "objectKind (ServiceObject x) = ''Service''"
| "objectKind (DeploymentObject x) = ''Deployment''"
| "objectKind (StatefulSetObject x) = ''StatefulSet''"
| "objectKind (OperatingSystemConfigObject x) = ''OperatingSystemConfig''"
| "objectKind (OtherObject kind name) = kind"

fun objectName :: "Object \<Rightarrow> string" where
  "objectName (ServiceObject x) = svc_Name x"
| "objectName (DeploymentObject x) = dep_Name x"
| "objectName (StatefulSetObject x) = ss_Name x"
| "objectName (OperatingSystemConfigObject x) = osc_Name x"
| "objectName (OtherObject kind name) = name"

definition recognized :: "string \<Rightarrow> string \<Rightarrow> bool" where
  "recognized kind name =
     (kind = ''Service'' \<and> name = ''kube-apiserver''
      \<or> kind = ''Deployment''
          \<and> name \<in> set [''kube-apiserver'', ''kube-controller-manager'', ''kube-scheduler'']
      \<or> kind = ''StatefulSet'' \<and> name \<in> set [''etcd-main'', ''etcd-events'']
      \<or> kind = ''OperatingSystemConfig'')"

section \<open>Concrete inputs\<close>

text \<open>
  The inputs of the tests of the backup ensurer: the schedule of the configuration,
  the image vector, the cluster with and without a backup of the seed, and the
  secret with the data \<open>{"foo": "bar"}\<close>.
\<close>

definition test_etcdBackup :: ETCDBackup where
  "test_etcdBackup = \<lparr>Schedule = Some ''0 */24 * * *''\<rparr>"

definition test_imageVector :: "string \<Rightarrow> string \<Rightarrow> error + string" where
  "test_imageVector name version =
     (if name = ''etcd-backup-restore'' then Inr ''test-repository:test-tag''
      else Inl (Err (''could not find image '' @ name)))"

definition test_cluster :: Cluster where
  "test_cluster =
     \<lparr>CloudProfile = None, Shoot = None, CoreCloudProfile = None, CoreShoot = Some (),
      KubernetesVersion = ''1.13.4'', SeedBackup = Some (),
      TechnicalID = ''shoot--test--sample'', UID = ''test-uid''\<rparr>"

definition test_secret :: SecretData where
  "test_secret = [(''foo'', ''bar'')]"

definition test_client :: client where
  "test_client namespace name =
     (if namespace = ''test'' \<and> name = ''etcd-backup'' then Inr test_secret
      else Inl (Err (''secret not found: '' @ namespace @ ''/'' @ name)))"

definition test_ensurer :: ensurer where
  "test_ensurer =
     \<lparr>etcdBackup = Some test_etcdBackup, imageVector = test_imageVector, client = test_client\<rparr>"

text \<open>
  Stand-ins for the two functions and the constants of the record \<open>pkg\<close>, to apply the
  theorems at concrete inputs: a container that carries its schedule, provider and
  prefix as command line flags, and a schedule that is read back from the flag of
  the existing container, with a fixed schedule when there is no such flag.
\<close>

definition test_GetBackupRestoreContainer ::
  "string \<Rightarrow> string \<Rightarrow> string \<Rightarrow> string \<Rightarrow> string \<Rightarrow> string \<Rightarrow>
   (string \<times> string) list option \<Rightarrow> EnvVar list \<Rightarrow> VolumeMount list \<Rightarrow> Container" where
  "test_GetBackupRestoreContainer name volumeClaimTemplateName schedule provider prefix img
     args env volumeMounts =
     \<lparr>c_Name = ''backup-restore'',
      c_Image = img,
      c_Command = [''etcdbrctl'', ''server'', ''--schedule='' @ schedule,
                   ''--storage-provider='' @ provider, ''--store-prefix='' @ prefix],
      c_Env = env,
      c_VolumeMounts =
        \<lparr>vm_Name = volumeClaimTemplateName, vm_MountPath = ''/var/etcd/data''\<rparr> # volumeMounts\<rparr>"

definition test_DetermineBackupSchedule :: "Container option \<Rightarrow> Cluster \<Rightarrow> error + string" where
  "test_DetermineBackupSchedule c cluster =
     (case c of
        None \<Rightarrow> Inr ''15 3 * * *''
      | Some x \<Rightarrow>
          (case find (\<lambda>a. take 11 a = ''--schedule='') (c_Command x) of
             None \<Rightarrow> Inr ''15 3 * * *''
           | Some a \<Rightarrow> Inr (drop 11 a)))"

definition test_pkg :: pkg where
  "test_pkg =
     \<lparr>DetermineBackupSchedule = test_DetermineBackupSchedule,
      GetBackupRestoreContainer = test_GetBackupRestoreContainer,
      EtcdMainVolumeClaimTemplateName = ''main-etcd'',
      ETCDBackupRestoreImageName = ''etcd-backup-restore'',
      StorageProviderName = ''S3'',
      BackupSecretName = ''etcd-backup'',
      BucketName = ''bucketName'',
      Region = ''region'',
      AccessKeyID = ''accessKeyID'',
      SecretAccessKey = ''secretAccessKey''\<rparr>"

definition test_container :: Container where
  "test_container =
     \<lparr>c_Name = ''backup-restore'', c_Image = [], c_Command = [''--schedule=0 */12 * * *''],
      c_Env = [], c_VolumeMounts = []\<rparr>"

definition etcd_container :: Container where
  "etcd_container =
     \<lparr>c_Name = ''etcd'', c_Image = ''etcd:v3'', c_Command = [], c_Env = [], c_VolumeMounts = []\<rparr>"

definition test_statefulSet :: "string \<Rightarrow> Container list \<Rightarrow> StatefulSet" where
  "test_statefulSet name containers =
     \<lparr>ss_Name = name, ss_Namespace = ''test'',
      Template = \<lparr>Annotations = None, Spec = \<lparr>Containers = containers, Volumes = []\<rparr>\<rparr>\<rparr>"

text \<open>
  The inputs of the tests of the dispatcher that pass through: objects named \<open>test\<close>.
  The mutator of those tests has no ensurer and no client; here every hook and the
  lookup of the cluster fail, so that a call of one of them shows in the result.
\<close>

definition failing_hook :: "'a \<Rightarrow> 'a \<times> error option" where
  "failing_hook x = (x, Some (Err ''hook called''))"

definition failing_Ensurer :: Ensurer where
  "failing_Ensurer =
     \<lparr>EnsureKubeAPIServerService = failing_hook,
      EnsureKubeAPIServerDeployment = failing_hook,
      EnsureKubeControllerManagerDeployment = failing_hook,
      EnsureKubeSchedulerDeployment = failing_hook,
      EnsureETCDStatefulSetHook = (\<lambda>ss cluster. failing_hook ss),
      EnsureKubeletServiceUnitOptions = failing_hook,
      EnsureKubeletConfiguration = failing_hook,
      EnsureKubernetesGeneralConfiguration = failing_hook,
      ShouldProvisionKubeletCloudProviderConfig = True,
      EnsureKubeletCloudProviderConfig = failing_hook,
      EnsureAdditionalUnits = failing_hook,
      EnsureAdditionalFiles = failing_hook\<rparr>"

definition test_mutator :: mutator where
  "test_mutator =
     \<lparr>mutator_ensurer = failing_Ensurer,
      getCluster = (\<lambda>namespace. Inl (Err ''cluster lookup called''))\<rparr>"

definition test_service :: Service where
  "test_service = \<lparr>svc_Name = ''test'', svc_Namespace = [], svc_Annotations = None\<rparr>"

definition test_deployment :: Deployment where
  "test_deployment =
     \<lparr>dep_Name = ''test'', dep_Namespace = [],
      dep_Template = \<lparr>Annotations = None, Spec = \<lparr>Containers = [], Volumes = []\<rparr>\<rparr>\<rparr>"

text \<open>Inputs of the values provider.\<close>

definition test_infraStatus :: InfrastructureStatus where
  "test_infraStatus =
     \<lparr>FloatingPool_ID = ''floating-network-id'', FloatingPool_Name = ''floating-pool'',
      Subnets = [\<lparr>Purpose = ''nodes'', subnet_ID = ''subnet-id''\<rparr>]\<rparr>"

definition test_credentials :: Credentials where
  "test_credentials =
     \<lparr>DomainName = ''domain'', TenantName = ''tenant'', Username = ''user'', Password = ''secret''\<rparr>"

definition test_cloudProfileConfig :: CloudProfileConfig where
  "test_cloudProfileConfig =
     \<lparr>KeyStoneURL = ''foo-bar.com'', DHCPDomain = None, RequestTimeout = None,
      FloatingPools = []\<rparr>"

definition core_cluster :: Cluster where
  "core_cluster =
     \<lparr>CloudProfile = None, Shoot = None, CoreCloudProfile = Some (), CoreShoot = Some (),
      KubernetesVersion = ''1.13.4'', SeedBackup = None, TechnicalID = [], UID = []\<rparr>"

definition lbClass :: "string \<Rightarrow> string option \<Rightarrow> string option \<Rightarrow> LoadBalancerClass" where
  "lbClass name floatingSubnetID floatingNetworkID =
     \<lparr>lbc_Name = name, FloatingSubnetID = floatingSubnetID,
      FloatingNetworkID = floatingNetworkID, SubnetID = None\<rparr>"

definition cpConfigWith :: "LoadBalancerClass list option \<Rightarrow> ControlPlaneConfig" where
  "cpConfigWith classes = \<lparr>LoadBalancerProvider = ''haproxy'', LoadBalancerClasses = classes\<rparr>"

text \<open>Two classes named \<open>default\<close> with different floating subnet IDs.\<close>

definition two_default_classes :: ControlPlaneConfig where
  "two_default_classes =
     cpConfigWith (Some [lbClass ''default'' (Some ''first'') None,
                         lbClass ''default'' (Some ''last'') None])"

section \<open>Properties of the backup ensurer\<close>

lemmas test_defs = test_pkg_def test_ensurer_def test_cluster_def test_etcdBackup_def
  test_imageVector_def test_client_def test_GetBackupRestoreContainer_def
  test_DetermineBackupSchedule_def test_container_def etcd_container_def test_statefulSet_def
  GetKubernetesVersion_def IsSeedBackupNil_def GetTechnicalID_def GetUID_def
  GenerateBackupEntryName_def StatefulSetNameETCDMain_def StatefulSetNameETCDEvents_def
  BackupRestoreContainerName_def

subsection \<open>Ensuring an element by its key\<close>

lemma find_ensureWithKey_same:
  "find (\<lambda>x. key x = key item) (ensureWithKey key xs item) = Some item"
  by (induction xs) auto

lemma find_ensureWithKey_other:
  "k \<noteq> key item \<Longrightarrow>
   find (\<lambda>x. key x = k) (ensureWithKey key xs item) = find (\<lambda>x. key x = k) xs"
  by (induction xs) auto

lemma ensureWithKey_again:
  "ensureWithKey key (ensureWithKey key xs item) item = ensureWithKey key xs item"
  by (induction xs) auto

lemma ensureWithKey_absent:
  "find (\<lambda>x. key x = key item) xs = None \<Longrightarrow> ensureWithKey key xs item = xs @ [item]"
  by (induction xs) (auto split: if_splits)

lemma ensureWithKey_present:
  "i < length xs \<Longrightarrow> key (xs ! i) = key item \<Longrightarrow> \<forall>j < i. key (xs ! j) \<noteq> key item \<Longrightarrow>
   ensureWithKey key xs item = xs[i := item]"
proof (induction xs arbitrary: i)
  case Nil
  then show ?case by simp
next
  case (Cons x xs)
  show ?case
  proof (cases i)
    case 0
    with Cons.prems show ?thesis by simp
  next
    case (Suc n)
    with Cons.prems have "key x \<noteq> key item" by auto
    moreover have "ensureWithKey key xs item = xs[n := item]"
      using Cons.prems Suc by (intro Cons.IH) auto
    ultimately show ?thesis using Suc by simp
  qed
qed

lemma length_ensureWithKey:
  "length (ensureWithKey key xs item) =
     (if find (\<lambda>x. key x = key item) xs = None then Suc (length xs) else length xs)"
  by (induction xs) auto

lemma ensureWithKey_keeps_others:
  "filter (\<lambda>x. key x \<noteq> key item) (ensureWithKey key xs item) = filter (\<lambda>x. key x \<noteq> key item) xs"
  by (induction xs) auto

lemma ensureWithKey_count:
  "length (filter (\<lambda>x. key x = key item) (ensureWithKey key xs item)) =
     (if find (\<lambda>x. key x = key item) xs = None then 1
      else length (filter (\<lambda>x. key x = key item) xs))"
  by (induction xs) (auto simp: find_None_iff filter_empty_conv)

subsection \<open>The schedule\<close>

lemma backupSchedule_override:
  "etcdBackup e = Some b \<Longrightarrow> Schedule b = Some s \<Longrightarrow> backupSchedule p e existing cluster = Inr s"
  by (simp add: backupSchedule_def)

lemma backupSchedule_default:
  "etcdBackup e = None \<or> (\<exists>b. etcdBackup e = Some b \<and> Schedule b = None) \<Longrightarrow>
   backupSchedule p e existing cluster = DetermineBackupSchedule p existing cluster"
  by (auto simp: backupSchedule_def)

text \<open>
  C7. In \<open>ensureBackupRestoreContainer\<close>, a schedule in the configuration of the
  ensurer takes priority: the container is built with that schedule, whatever the
  existing container is and whatever \<open>DetermineBackupSchedule\<close> would return. When the
  configuration or its schedule is \<open>nil\<close>, the schedule is the value of
  \<open>DetermineBackupSchedule\<close> at the existing container and the cluster, and an error
  of it is returned. (The image is found; the other arguments of the container are
  those of \<open>backupSettings\<close>.)
\<close>

theorem schedule_override_precedence:
  assumes img: "imageVector e (ETCDBackupRestoreImageName p) (GetKubernetesVersion cluster) = Inr img"
    and settings: "backupSettings p name cluster = (provider, prefix, env, vct)"
  shows "(\<forall>b s. etcdBackup e = Some b \<and> Schedule b = Some s \<longrightarrow>
            ensureBackupRestoreContainer p e existing name cluster =
              Inr (GetBackupRestoreContainer p name vct s provider prefix img None env []))
       \<and> ((etcdBackup e = None \<or> (\<exists>b. etcdBackup e = Some b \<and> Schedule b = None)) \<longrightarrow>
            ensureBackupRestoreContainer p e existing name cluster =
              (case DetermineBackupSchedule p existing cluster of
                 Inl err \<Rightarrow> Inl err
               | Inr s \<Rightarrow>
                   Inr (GetBackupRestoreContainer p name vct s provider prefix img None env [])))"
  using img settings backupSchedule_override [of e _ _ p existing cluster]
    backupSchedule_default [of e p existing cluster]
  by (auto simp: ensureBackupRestoreContainer_def split: sum.splits)

theorem schedule_override_precedence_witness:
  "ensureBackupRestoreContainer test_pkg test_ensurer (Some test_container) ''etcd-events'' test_cluster
     = Inr (test_GetBackupRestoreContainer ''etcd-events'' ''etcd-events'' ''0 */24 * * *'' [] []
              ''test-repository:test-tag'' None [] [])
   \<and> ensureBackupRestoreContainer test_pkg (test_ensurer\<lparr>etcdBackup := None\<rparr>) (Some test_container)
        ''etcd-events'' test_cluster
     = Inr (test_GetBackupRestoreContainer ''etcd-events'' ''etcd-events'' ''0 */12 * * *'' [] []
              ''test-repository:test-tag'' None [] [])"
proof -
  have i1: "imageVector test_ensurer (ETCDBackupRestoreImageName test_pkg)
              (GetKubernetesVersion test_cluster) = Inr ''test-repository:test-tag''"
    by (simp add: test_defs)
  have i2: "imageVector (test_ensurer\<lparr>etcdBackup := None\<rparr>) (ETCDBackupRestoreImageName test_pkg)
              (GetKubernetesVersion test_cluster) = Inr ''test-repository:test-tag''"
    by (simp add: test_defs)
  have st: "backupSettings test_pkg ''etcd-events'' test_cluster = ([], [], [], ''etcd-events'')"
    by (simp add: backupSettings_def test_defs)
  have o1: "etcdBackup test_ensurer = Some test_etcdBackup
            \<and> Schedule test_etcdBackup = Some ''0 */24 * * *''"
    by (simp add: test_defs)
  have o2: "etcdBackup (test_ensurer\<lparr>etcdBackup := None\<rparr>) = None"
    by simp
  have d: "DetermineBackupSchedule test_pkg (Some test_container) test_cluster
             = Inr ''0 */12 * * *''"
    by (simp add: test_defs)
  from schedule_override_precedence [OF i1 st, of "Some test_container"] o1
  have a: "ensureBackupRestoreContainer test_pkg test_ensurer (Some test_container)
             ''etcd-events'' test_cluster
     = Inr (GetBackupRestoreContainer test_pkg ''etcd-events'' ''etcd-events'' ''0 */24 * * *'' [] []
              ''test-repository:test-tag'' None [] [])"
    by blast
  from schedule_override_precedence [OF i2 st, of "Some test_container"] o2 d
  have b: "ensureBackupRestoreContainer test_pkg (test_ensurer\<lparr>etcdBackup := None\<rparr>)
             (Some test_container) ''etcd-events'' test_cluster
     = Inr (GetBackupRestoreContainer test_pkg ''etcd-events'' ''etcd-events'' ''0 */12 * * *'' [] []
              ''test-repository:test-tag'' None [] [])"
    by simp
  from a b show ?thesis by (simp add: test_pkg_def)
qed

subsection \<open>Idempotence\<close>

lemma ContainerWithName_ensured:
  "ContainerWithName (EnsureContainerWithName cs c) (c_Name c) = Some c"
  by (simp add: ContainerWithName_def EnsureContainerWithName_def find_ensureWithKey_same)

lemma ContainerWithName_other:
  "name \<noteq> c_Name c \<Longrightarrow>
   ContainerWithName (EnsureContainerWithName cs c) name = ContainerWithName cs name"
  by (simp add: ContainerWithName_def EnsureContainerWithName_def find_ensureWithKey_other)

lemma EnsureContainerWithName_again:
  "EnsureContainerWithName (EnsureContainerWithName cs c) c = EnsureContainerWithName cs c"
  by (simp add: EnsureContainerWithName_def ensureWithKey_again)

lemma EnsureSecretChecksumAnnotation_again:
  "EnsureSecretChecksumAnnotation (fst (EnsureSecretChecksumAnnotation t c ns n)) c ns n
     = EnsureSecretChecksumAnnotation t c ns n"
  by (simp add: EnsureSecretChecksumAnnotation_def split: sum.splits)

lemma EnsureSecretChecksumAnnotation_Spec:
  "Spec (fst (EnsureSecretChecksumAnnotation t c ns n)) = Spec t"
  by (simp add: EnsureSecretChecksumAnnotation_def split: sum.splits)

lemma ensureChecksumAnnotations_again:
  "ensureChecksumAnnotations p e (fst (ensureChecksumAnnotations p e t ns n b)) ns n b
     = ensureChecksumAnnotations p e t ns n b"
  by (simp add: ensureChecksumAnnotations_def EnsureSecretChecksumAnnotation_again)

lemma ensureChecksumAnnotations_Spec:
  "Spec (fst (ensureChecksumAnnotations p e t ns n b)) = Spec t"
  by (simp add: ensureChecksumAnnotations_def EnsureSecretChecksumAnnotation_Spec)

lemma ensureContainers_fail:
  "ensureBackupRestoreContainer p e
     (ContainerWithName (Containers ps) BackupRestoreContainerName) name cluster = Inl err \<Longrightarrow>
   ensureContainers p e ps name cluster = (ps, Some err)"
  by (simp add: ensureContainers_def)

lemma ensureContainers_ok:
  "ensureBackupRestoreContainer p e
     (ContainerWithName (Containers ps) BackupRestoreContainerName) name cluster = Inr c \<Longrightarrow>
   ensureContainers p e ps name cluster
     = (ps\<lparr>Containers := EnsureContainerWithName (Containers ps) c\<rparr>, None)"
  by (simp add: ensureContainers_def)

text \<open>The container that is built depends on the existing one only through the schedule.\<close>

lemma ensureBackupRestoreContainer_cong:
  "backupSchedule p e x cluster = backupSchedule p e y cluster \<Longrightarrow>
   ensureBackupRestoreContainer p e x name cluster = ensureBackupRestoreContainer p e y name cluster"
  by (simp add: ensureBackupRestoreContainer_def split: sum.splits prod.splits)

lemma ensureBackupRestoreContainer_built:
  "ensureBackupRestoreContainer p e x name cluster = Inr c \<Longrightarrow>
   \<exists>vct s provider prefix img env.
     backupSchedule p e x cluster = Inr s
     \<and> c = GetBackupRestoreContainer p name vct s provider prefix img None env []"
  by (simp add: ensureBackupRestoreContainer_def split: sum.splits prod.splits) blast

lemma ensureContainers_again:
  assumes "(\<exists>b s. etcdBackup e = Some b \<and> Schedule b = Some s)
           \<or> (\<forall>n vct s provider prefix img args env vms.
                 DetermineBackupSchedule p
                   (Some (GetBackupRestoreContainer p n vct s provider prefix img args env vms))
                   cluster = Inr s)"
  shows "ensureContainers p e (fst (ensureContainers p e ps name cluster)) name cluster
           = ensureContainers p e ps name cluster"
proof (cases "ensureBackupRestoreContainer p e
     (ContainerWithName (Containers ps) BackupRestoreContainerName) name cluster")
  case (Inl err)
  then show ?thesis by (simp add: ensureContainers_fail)
next
  case (Inr c)
  let ?x = "ContainerWithName (Containers ps) BackupRestoreContainerName"
  let ?cs = "EnsureContainerWithName (Containers ps) c"
  let ?y = "ContainerWithName ?cs BackupRestoreContainerName"
  from ensureBackupRestoreContainer_built [OF Inr]
  obtain vct s provider prefix img env where
    s: "backupSchedule p e ?x cluster = Inr s"
    and c: "c = GetBackupRestoreContainer p name vct s provider prefix img None env []"
    by blast
  have "backupSchedule p e ?y cluster = backupSchedule p e ?x cluster"
  proof (cases "\<exists>b s. etcdBackup e = Some b \<and> Schedule b = Some s")
    case True
    then show ?thesis by (auto simp: backupSchedule_override)
  next
    case False
    with assms have st: "DetermineBackupSchedule p (Some c) cluster = Inr s"
      unfolding c by blast
    from False have df: "backupSchedule p e z cluster = DetermineBackupSchedule p z cluster" for z
      by (intro backupSchedule_default) (cases "etcdBackup e"; auto)
    show ?thesis
    proof (cases "c_Name c = BackupRestoreContainerName")
      case True
      then have "?y = Some c" using ContainerWithName_ensured [of "Containers ps" c] by simp
      with st s df show ?thesis by simp
    next
      case False
      then have "?y = ?x" by (simp add: ContainerWithName_other)
      then show ?thesis by simp
    qed
  qed
  then have "ensureBackupRestoreContainer p e ?y name cluster = Inr c"
    using Inr ensureBackupRestoreContainer_cong [of p e ?y cluster ?x name] by simp
  then have "ensureContainers p e (ps\<lparr>Containers := ?cs\<rparr>) name cluster
               = (ps\<lparr>Containers := ?cs\<rparr>, None)"
    using ensureContainers_ok [of p e "ps\<lparr>Containers := ?cs\<rparr>" name cluster c]
    by (simp add: EnsureContainerWithName_again)
  then show ?thesis using Inr by (simp add: ensureContainers_ok)
qed

text \<open>
  C1. Applying \<open>EnsureETCDStatefulSet\<close> of the AWS backup ensurer to the stateful set
  that a first application left gives the same stateful set and the same error or
  \<open>nil\<close> as the first application, for every stateful set, cluster, image vector
  and client. The schedule is the only input that is read from the object: it is
  required that the configuration has a schedule, as in the test, or else that
  \<open>DetermineBackupSchedule\<close>, which is not among the sources, returns for a container
  built by \<open>GetBackupRestoreContainer\<close> the schedule that the container was built with.
\<close>

theorem EnsureETCDStatefulSet_idempotent:
  assumes "(\<exists>b s. etcdBackup e = Some b \<and> Schedule b = Some s)
           \<or> (\<forall>n vct s provider prefix img args env vms.
                 DetermineBackupSchedule p
                   (Some (GetBackupRestoreContainer p n vct s provider prefix img args env vms))
                   cluster = Inr s)"
  shows "EnsureETCDStatefulSet p e (fst (EnsureETCDStatefulSet p e ss cluster)) cluster
           = EnsureETCDStatefulSet p e ss cluster"
proof -
  let ?ps = "Spec (Template ss)"
  obtain ps1 r1 where c1: "ensureContainers p e ?ps (ss_Name ss) cluster = (ps1, r1)"
    by (cases "ensureContainers p e ?ps (ss_Name ss) cluster")
  from ensureContainers_again [OF assms, of ?ps "ss_Name ss"] c1
  have c2: "ensureContainers p e ps1 (ss_Name ss) cluster = (ps1, r1)" by simp
  show ?thesis
  proof (cases r1)
    case (Some err)
    with c1 c2 show ?thesis by (simp add: EnsureETCDStatefulSet_def)
  next
    case None
    let ?t = "(Template ss)\<lparr>Spec := ps1\<rparr>"
    let ?b = "\<not> IsSeedBackupNil cluster"
    obtain t1 r where a1:
      "ensureChecksumAnnotations p e ?t (ss_Namespace ss) (ss_Name ss) ?b = (t1, r)"
      by (cases "ensureChecksumAnnotations p e ?t (ss_Namespace ss) (ss_Name ss) ?b")
    from ensureChecksumAnnotations_Spec [of p e ?t "ss_Namespace ss" "ss_Name ss" ?b] a1
    have sp: "Spec t1 = ps1" by simp
    from ensureChecksumAnnotations_again [of p e ?t "ss_Namespace ss" "ss_Name ss" ?b] a1
    have a2: "ensureChecksumAnnotations p e t1 (ss_Namespace ss) (ss_Name ss) ?b = (t1, r)"
      by simp
    have first: "EnsureETCDStatefulSet p e ss cluster = (ss\<lparr>Template := t1\<rparr>, r)"
      using c1 None a1 by (simp add: EnsureETCDStatefulSet_def)
    have same: "t1\<lparr>Spec := ps1\<rparr> = t1" using sp by simp
    have "EnsureETCDStatefulSet p e (ss\<lparr>Template := t1\<rparr>) cluster = (ss\<lparr>Template := t1\<rparr>, r)"
      using c2 None a2 by (simp add: EnsureETCDStatefulSet_def sp same)
    with first show ?thesis by simp
  qed
qed

theorem EnsureETCDStatefulSet_idempotent_witness:
  "(\<exists>b s. etcdBackup test_ensurer = Some b \<and> Schedule b = Some s)
   \<and> EnsureETCDStatefulSet test_pkg test_ensurer
        (fst (EnsureETCDStatefulSet test_pkg test_ensurer
                (test_statefulSet ''etcd-main'' [etcd_container]) test_cluster)) test_cluster
       = EnsureETCDStatefulSet test_pkg test_ensurer
           (test_statefulSet ''etcd-main'' [etcd_container]) test_cluster
   \<and> (\<forall>n vct s provider prefix img args env vms.
          DetermineBackupSchedule test_pkg
            (Some (GetBackupRestoreContainer test_pkg n vct s provider prefix img args env vms))
            test_cluster = Inr s)
   \<and> EnsureETCDStatefulSet test_pkg (test_ensurer\<lparr>etcdBackup := None\<rparr>)
        (fst (EnsureETCDStatefulSet test_pkg (test_ensurer\<lparr>etcdBackup := None\<rparr>)
                (test_statefulSet ''etcd-main'' [etcd_container]) test_cluster)) test_cluster
       = EnsureETCDStatefulSet test_pkg (test_ensurer\<lparr>etcdBackup := None\<rparr>)
           (test_statefulSet ''etcd-main'' [etcd_container]) test_cluster"
proof -
  have h1: "\<exists>b s. etcdBackup test_ensurer = Some b \<and> Schedule b = Some s"
    by (simp add: test_ensurer_def test_etcdBackup_def)
  have h2: "\<forall>n vct s provider prefix img args env vms.
          DetermineBackupSchedule test_pkg
            (Some (GetBackupRestoreContainer test_pkg n vct s provider prefix img args env vms))
            test_cluster = Inr s"
    by (simp add: test_pkg_def test_DetermineBackupSchedule_def test_GetBackupRestoreContainer_def)
  from h1 have d1: "(\<exists>b s. etcdBackup test_ensurer = Some b \<and> Schedule b = Some s)
           \<or> (\<forall>n vct s provider prefix img args env vms.
                 DetermineBackupSchedule test_pkg
                   (Some (GetBackupRestoreContainer test_pkg n vct s provider prefix img args env vms))
                   test_cluster = Inr s)" by blast
  from h2 have d2: "(\<exists>b s. etcdBackup (test_ensurer\<lparr>etcdBackup := None\<rparr>) = Some b \<and> Schedule b = Some s)
           \<or> (\<forall>n vct s provider prefix img args env vms.
                 DetermineBackupSchedule test_pkg
                   (Some (GetBackupRestoreContainer test_pkg n vct s provider prefix img args env vms))
                   test_cluster = Inr s)" by blast
  from EnsureETCDStatefulSet_idempotent [OF d1] EnsureETCDStatefulSet_idempotent [OF d2] h1 h2
  show ?thesis by blast
qed

subsection \<open>The sidecar of the two stateful sets\<close>

lemma EnsureETCDStatefulSet_built:
  assumes "ensureBackupRestoreContainer p e
             (ContainerWithName (Containers (Spec (Template ss))) BackupRestoreContainerName)
             (ss_Name ss) cluster = Inr c"
  shows "EnsureETCDStatefulSet p e ss cluster =
           (case ensureChecksumAnnotations p e
                   ((Template ss)\<lparr>Spec := (Spec (Template ss))
                      \<lparr>Containers := EnsureContainerWithName (Containers (Spec (Template ss))) c\<rparr>\<rparr>)
                   (ss_Namespace ss) (ss_Name ss) (\<not> IsSeedBackupNil cluster) of
              (template, r) \<Rightarrow> (ss\<lparr>Template := template\<rparr>, r))"
  using assms by (simp add: EnsureETCDStatefulSet_def ensureContainers_ok)

lemma ensureBackupRestoreContainer_ok:
  assumes "imageVector e (ETCDBackupRestoreImageName p) (GetKubernetesVersion cluster) = Inr img"
    and "backupSchedule p e existing cluster = Inr s"
    and "backupSettings p name cluster = (provider, prefix, env, vct)"
  shows "ensureBackupRestoreContainer p e existing name cluster =
           Inr (GetBackupRestoreContainer p name vct s provider prefix img None env [])"
  using assms by (simp add: ensureBackupRestoreContainer_def)

text \<open>
  C4. For a stateful set named \<open>etcd-main\<close> (the image is found and the schedule is
  determined): when the backup of the seed is \<open>nil\<close>, \<open>EnsureETCDStatefulSet\<close> returns no
  error, ensures the container that \<open>GetBackupRestoreContainer\<close> builds with an empty
  provider, an empty prefix and no environment, and leaves the annotations of the pod
  template as they were; when the backup of the seed is not \<open>nil\<close> and the client
  returns the backup secret, the container has the provider of the package, the prefix
  \<open><technical-ID>--<UID>\<close> and the four environment variables, and the annotations
  get the checksum of the data of the secret under \<open>checksum/secret-<backup secret>\<close>.
\<close>

theorem conditional_backup_injection:
  assumes name: "ss_Name ss = StatefulSetNameETCDMain"
    and img: "imageVector e (ETCDBackupRestoreImageName p) (GetKubernetesVersion cluster) = Inr img"
    and sched: "backupSchedule p e
                  (ContainerWithName (Containers (Spec (Template ss))) BackupRestoreContainerName)
                  cluster = Inr s"
  shows "(IsSeedBackupNil cluster \<longrightarrow>
            (let c = GetBackupRestoreContainer p (ss_Name ss) (EtcdMainVolumeClaimTemplateName p) s
                       [] [] img None [] [];
                 r = EnsureETCDStatefulSet p e ss cluster
             in snd r = None
                \<and> Containers (Spec (Template (fst r)))
                    = EnsureContainerWithName (Containers (Spec (Template ss))) c
                \<and> ContainerWithName (Containers (Spec (Template (fst r)))) (c_Name c) = Some c
                \<and> Annotations (Template (fst r)) = Annotations (Template ss)))
       \<and> (\<not> IsSeedBackupNil cluster \<longrightarrow>
            (\<forall>d. client e (ss_Namespace ss) (BackupSecretName p) = Inr d \<longrightarrow>
              (let prefix = GetTechnicalID cluster @ ''--'' @ GetUID cluster;
                   c = GetBackupRestoreContainer p (ss_Name ss) (EtcdMainVolumeClaimTemplateName p) s
                         (StorageProviderName p) prefix img None (backupEnv p) [];
                   r = EnsureETCDStatefulSet p e ss cluster
               in snd r = None
                  \<and> Containers (Spec (Template (fst r)))
                      = EnsureContainerWithName (Containers (Spec (Template ss))) c
                  \<and> ContainerWithName (Containers (Spec (Template (fst r)))) (c_Name c) = Some c
                  \<and> Annotations (Template (fst r))
                      = Some ((case Annotations (Template ss) of None \<Rightarrow> Map.empty | Some m \<Rightarrow> m)
                                (''checksum/secret-'' @ BackupSecretName p \<mapsto> ComputeChecksum d))
                  \<and> prefix \<noteq> [] \<and> length (backupEnv p) = 4)))"
proof (intro conjI impI allI)
  assume nil: "IsSeedBackupNil cluster"
  have st: "backupSettings p (ss_Name ss) cluster = ([], [], [], EtcdMainVolumeClaimTemplateName p)"
    using name nil by (simp add: backupSettings_def)
  note b = EnsureETCDStatefulSet_built [OF ensureBackupRestoreContainer_ok [OF img sched st]]
  show "let c = GetBackupRestoreContainer p (ss_Name ss) (EtcdMainVolumeClaimTemplateName p) s
                       [] [] img None [] [];
                 r = EnsureETCDStatefulSet p e ss cluster
             in snd r = None
                \<and> Containers (Spec (Template (fst r)))
                    = EnsureContainerWithName (Containers (Spec (Template ss))) c
                \<and> ContainerWithName (Containers (Spec (Template (fst r)))) (c_Name c) = Some c
                \<and> Annotations (Template (fst r)) = Annotations (Template ss)"
    using nil by (simp add: b ensureChecksumAnnotations_def ContainerWithName_ensured)
next
  fix d
  assume conf: "\<not> IsSeedBackupNil cluster"
    and sec: "client e (ss_Namespace ss) (BackupSecretName p) = Inr d"
  have st: "backupSettings p (ss_Name ss) cluster =
              (StorageProviderName p, GetTechnicalID cluster @ ''--'' @ GetUID cluster,
               backupEnv p, EtcdMainVolumeClaimTemplateName p)"
    using name conf by (simp add: backupSettings_def GenerateBackupEntryName_def)
  note b = EnsureETCDStatefulSet_built [OF ensureBackupRestoreContainer_ok [OF img sched st]]
  show "let prefix = GetTechnicalID cluster @ ''--'' @ GetUID cluster;
                   c = GetBackupRestoreContainer p (ss_Name ss) (EtcdMainVolumeClaimTemplateName p) s
                         (StorageProviderName p) prefix img None (backupEnv p) [];
                   r = EnsureETCDStatefulSet p e ss cluster
               in snd r = None
                  \<and> Containers (Spec (Template (fst r)))
                      = EnsureContainerWithName (Containers (Spec (Template ss))) c
                  \<and> ContainerWithName (Containers (Spec (Template (fst r)))) (c_Name c) = Some c
                  \<and> Annotations (Template (fst r))
                      = Some ((case Annotations (Template ss) of None \<Rightarrow> Map.empty | Some m \<Rightarrow> m)
                                (''checksum/secret-'' @ BackupSecretName p \<mapsto> ComputeChecksum d))
                  \<and> prefix \<noteq> [] \<and> length (backupEnv p) = 4"
    using conf name sec
    by (simp add: b ensureChecksumAnnotations_def EnsureSecretChecksumAnnotation_def
          ContainerWithName_ensured backupEnv_def)
qed

theorem conditional_backup_injection_witness:
  "(let r = EnsureETCDStatefulSet test_pkg test_ensurer
              (test_statefulSet ''etcd-main'' [etcd_container]) (test_cluster\<lparr>SeedBackup := None\<rparr>)
    in snd r = None
       \<and> Containers (Spec (Template (fst r)))
           = [etcd_container,
              test_GetBackupRestoreContainer ''etcd-main'' ''main-etcd'' ''0 */24 * * *'' [] []
                ''test-repository:test-tag'' None [] []]
       \<and> Annotations (Template (fst r)) = None)
   \<and> (let r = EnsureETCDStatefulSet test_pkg test_ensurer
                 (test_statefulSet ''etcd-main'' [etcd_container]) test_cluster
       in snd r = None
          \<and> Containers (Spec (Template (fst r)))
              = [etcd_container,
                 test_GetBackupRestoreContainer ''etcd-main'' ''main-etcd'' ''0 */24 * * *'' ''S3''
                   ''shoot--test--sample--test-uid'' ''test-repository:test-tag'' None
                   (backupEnv test_pkg) []]
          \<and> Annotations (Template (fst r))
              = Some [''checksum/secret-etcd-backup'' \<mapsto> ComputeChecksum test_secret])"
proof -
  let ?ss = "test_statefulSet ''etcd-main'' [etcd_container]"
  let ?nb = "test_cluster\<lparr>SeedBackup := None\<rparr>"
  have name: "ss_Name ?ss = StatefulSetNameETCDMain"
    by (simp add: test_defs)
  have img: "imageVector test_ensurer (ETCDBackupRestoreImageName test_pkg)
               (GetKubernetesVersion c) = Inr ''test-repository:test-tag''" for c
    by (simp add: test_defs)
  have sched: "backupSchedule test_pkg test_ensurer
                 (ContainerWithName (Containers (Spec (Template ?ss))) BackupRestoreContainerName)
                 c = Inr ''0 */24 * * *''" for c
    by (simp add: backupSchedule_def test_defs)
  have nil: "IsSeedBackupNil ?nb" and conf: "\<not> IsSeedBackupNil test_cluster"
    by (simp_all add: test_defs)
  have sec: "client test_ensurer (ss_Namespace ?ss) (BackupSecretName test_pkg) = Inr test_secret"
    by (simp add: test_defs)
  have cs: "EnsureContainerWithName (Containers (Spec (Template ?ss))) (test_GetBackupRestoreContainer a b c d f g h i j)
              = [etcd_container, test_GetBackupRestoreContainer a b c d f g h i j]" for a b c d f g h i j
    by (simp add: EnsureContainerWithName_def test_defs)
  from conditional_backup_injection [OF name img sched, of ?nb] nil
  have a: "let r = EnsureETCDStatefulSet test_pkg test_ensurer ?ss ?nb
    in snd r = None
       \<and> Containers (Spec (Template (fst r)))
           = [etcd_container,
              test_GetBackupRestoreContainer ''etcd-main'' ''main-etcd'' ''0 */24 * * *'' [] []
                ''test-repository:test-tag'' None [] []]
       \<and> Annotations (Template (fst r)) = None"
    by (simp add: Let_def cs test_pkg_def) (simp add: test_defs)
  from conditional_backup_injection [OF name img sched, of test_cluster] conf sec
  have b: "let r = EnsureETCDStatefulSet test_pkg test_ensurer ?ss test_cluster
       in snd r = None
          \<and> Containers (Spec (Template (fst r)))
              = [etcd_container,
                 test_GetBackupRestoreContainer ''etcd-main'' ''main-etcd'' ''0 */24 * * *'' ''S3''
                   ''shoot--test--sample--test-uid'' ''test-repository:test-tag'' None
                   (backupEnv test_pkg) []]
          \<and> Annotations (Template (fst r))
              = Some [''checksum/secret-etcd-backup'' \<mapsto> ComputeChecksum test_secret]"
    by (simp add: Let_def cs test_pkg_def) (simp add: test_defs)
  from a b show ?thesis by simp
qed

text \<open>
  C8. For a stateful set named \<open>etcd-events\<close> (the image is found and the schedule is
  determined), whatever the cluster and its seed backup: \<open>EnsureETCDStatefulSet\<close> returns
  no error, ensures the container built with an empty provider, an empty prefix and
  no environment, with the name of the stateful set as the name of the volume claim
  template, and leaves the annotations and the volumes of the pod template as they
  were. For \<open>etcd-main\<close> the name of the volume claim template is the constant
  \<open>EtcdMainVolumeClaimTemplateName\<close>.
\<close>

theorem etcd_events_sidecar:
  assumes name: "ss_Name ss = StatefulSetNameETCDEvents"
    and img: "imageVector e (ETCDBackupRestoreImageName p) (GetKubernetesVersion cluster) = Inr img"
    and sched: "backupSchedule p e
                  (ContainerWithName (Containers (Spec (Template ss))) BackupRestoreContainerName)
                  cluster = Inr s"
  shows "(let c = GetBackupRestoreContainer p (ss_Name ss) (ss_Name ss) s [] [] img None [] [];
              r = EnsureETCDStatefulSet p e ss cluster
          in snd r = None
             \<and> Containers (Spec (Template (fst r)))
                 = EnsureContainerWithName (Containers (Spec (Template ss))) c
             \<and> ContainerWithName (Containers (Spec (Template (fst r)))) (c_Name c) = Some c
             \<and> Annotations (Template (fst r)) = Annotations (Template ss)
             \<and> Volumes (Spec (Template (fst r))) = Volumes (Spec (Template ss)))
         \<and> snd (snd (snd (backupSettings p StatefulSetNameETCDMain cluster)))
             = EtcdMainVolumeClaimTemplateName p"
proof -
  have ne: "ss_Name ss \<noteq> StatefulSetNameETCDMain"
    using name by (simp add: StatefulSetNameETCDMain_def StatefulSetNameETCDEvents_def)
  have st: "backupSettings p (ss_Name ss) cluster = ([], [], [], ss_Name ss)"
    using ne by (simp add: backupSettings_def)
  note b = EnsureETCDStatefulSet_built [OF ensureBackupRestoreContainer_ok [OF img sched st]]
  show ?thesis
    using ne by (simp add: b ensureChecksumAnnotations_def ContainerWithName_ensured
        backupSettings_def)
qed

theorem etcd_events_sidecar_witness:
  "(let r = EnsureETCDStatefulSet test_pkg test_ensurer
              (test_statefulSet ''etcd-events'' [etcd_container, test_container]) test_cluster
    in snd r = None
       \<and> Containers (Spec (Template (fst r)))
           = [etcd_container,
              test_GetBackupRestoreContainer ''etcd-events'' ''etcd-events'' ''0 */24 * * *'' [] []
                ''test-repository:test-tag'' None [] []]
       \<and> Annotations (Template (fst r)) = None
       \<and> Volumes (Spec (Template (fst r))) = [])"
proof -
  let ?ss = "test_statefulSet ''etcd-events'' [etcd_container, test_container]"
  have name: "ss_Name ?ss = StatefulSetNameETCDEvents"
    by (simp add: test_defs)
  have img: "imageVector test_ensurer (ETCDBackupRestoreImageName test_pkg)
               (GetKubernetesVersion test_cluster) = Inr ''test-repository:test-tag''"
    by (simp add: test_defs)
  have sched: "backupSchedule test_pkg test_ensurer
                 (ContainerWithName (Containers (Spec (Template ?ss))) BackupRestoreContainerName)
                 test_cluster = Inr ''0 */24 * * *''"
    by (simp add: backupSchedule_def test_defs)
  have cs: "EnsureContainerWithName (Containers (Spec (Template ?ss)))
              (test_GetBackupRestoreContainer a b c d f g h i j)
              = [etcd_container, test_GetBackupRestoreContainer a b c d f g h i j]" for a b c d f g h i j
    by (simp add: EnsureContainerWithName_def test_defs)
  from etcd_events_sidecar [OF name img sched]
  show ?thesis
    by (simp add: Let_def cs test_pkg_def) (simp add: test_defs)
qed

section \<open>Properties of the merge operations\<close>

lemma upserts_ensureWithKey: "upserts key (ensureWithKey key)"
  unfolding upserts_def
  by (auto simp: ensureWithKey_absent ensureWithKey_present length_ensureWithKey
        ensureWithKey_keeps_others)

lemma count_distinct_key:
  "distinct (map key xs) \<Longrightarrow> find (\<lambda>x. key x = k) xs \<noteq> None \<Longrightarrow>
   length (filter (\<lambda>x. key x = k) xs) = 1"
proof (induction xs)
  case Nil
  then show ?case by simp
next
  case (Cons x xs)
  show ?case
  proof (cases "key x = k")
    case True
    with Cons.prems have "filter (\<lambda>y. key y = k) xs = []"
      by (auto simp: filter_empty_conv intro: rev_image_eqI)
    with True show ?thesis by simp
  next
    case False
    with Cons show ?thesis by simp
  qed
qed

text \<open>
  C5. \<open>EnsureContainerWithName\<close> on a list with no container of the name appends the
  container. On a list of containers with distinct names that has a container of the
  name, the result has exactly one container of the name, it is the new container,
  and it stands at the index of the old one, every other position being as before.
  The container list that \<open>ensureContainers\<close> leaves is never shorter. Each of the
  merge operations on containers, environment variables, volumes and volume mounts
  appends when the key is absent, replaces in place when it is present and removes
  no element.
\<close>

theorem upsert_container:
  "(ContainerWithName cs (c_Name c) = None \<longrightarrow> EnsureContainerWithName cs c = cs @ [c])
   \<and> (distinct (map c_Name cs) \<and> ContainerWithName cs (c_Name c) \<noteq> None \<longrightarrow>
        length (filter (\<lambda>x. c_Name x = c_Name c) (EnsureContainerWithName cs c)) = 1
        \<and> (\<exists>i < length cs. c_Name (cs ! i) = c_Name c \<and> EnsureContainerWithName cs c = cs[i := c]))
   \<and> ContainerWithName (EnsureContainerWithName cs c) (c_Name c) = Some c
   \<and> length (Containers ps) \<le> length (Containers (fst (ensureContainers p e ps name cluster)))
   \<and> upserts c_Name EnsureContainerWithName
   \<and> upserts ev_Name EnsureEnvVarWithName
   \<and> upserts vol_Name EnsureVolumeWithName
   \<and> upserts vm_Name EnsureVolumeMountWithName"
proof -
  have a: "ContainerWithName cs (c_Name c) = None \<longrightarrow> EnsureContainerWithName cs c = cs @ [c]"
    by (simp add: ContainerWithName_def EnsureContainerWithName_def ensureWithKey_absent)
  have b: "length (filter (\<lambda>x. c_Name x = c_Name c) (EnsureContainerWithName cs c)) = 1
        \<and> (\<exists>i < length cs. c_Name (cs ! i) = c_Name c \<and> EnsureContainerWithName cs c = cs[i := c])"
    if d: "distinct (map c_Name cs)" and f: "ContainerWithName cs (c_Name c) \<noteq> None"
  proof
    from f have f': "find (\<lambda>x. c_Name x = c_Name c) cs \<noteq> None"
      by (simp add: ContainerWithName_def)
    with d show "length (filter (\<lambda>x. c_Name x = c_Name c) (EnsureContainerWithName cs c)) = 1"
      by (simp add: EnsureContainerWithName_def ensureWithKey_count count_distinct_key)
    from f' obtain x where "find (\<lambda>x. c_Name x = c_Name c) cs = Some x" by blast
    then obtain i where i: "i < length cs" "c_Name (cs ! i) = c_Name c"
      "\<forall>j < i. c_Name (cs ! j) \<noteq> c_Name c"
      unfolding find_Some_iff by blast
    then have "EnsureContainerWithName cs c = cs[i := c]"
      by (simp add: EnsureContainerWithName_def ensureWithKey_present)
    with i show "\<exists>i < length cs. c_Name (cs ! i) = c_Name c \<and> EnsureContainerWithName cs c = cs[i := c]"
      by blast
  qed
  have c: "length (Containers ps) \<le> length (Containers (fst (ensureContainers p e ps name cluster)))"
    by (simp add: ensureContainers_def EnsureContainerWithName_def length_ensureWithKey
          split: sum.splits)
  have u: "upserts c_Name EnsureContainerWithName" "upserts ev_Name EnsureEnvVarWithName"
    "upserts vol_Name EnsureVolumeWithName" "upserts vm_Name EnsureVolumeMountWithName"
    using upserts_ensureWithKey [of c_Name] upserts_ensureWithKey [of ev_Name]
      upserts_ensureWithKey [of vol_Name] upserts_ensureWithKey [of vm_Name]
    by (simp_all add: upserts_def EnsureContainerWithName_def EnsureEnvVarWithName_def
          EnsureVolumeWithName_def EnsureVolumeMountWithName_def)
  from a b c u show ?thesis
    by (simp add: ContainerWithName_ensured)
qed


theorem upsert_container_witness:
  "ContainerWithName [etcd_container] ''backup-restore'' = None
   \<and> EnsureContainerWithName [etcd_container] test_container = [etcd_container, test_container]
   \<and> distinct (map c_Name [etcd_container, test_container, etcd_container\<lparr>c_Name := ''sidecar''\<rparr>])
   \<and> ContainerWithName [etcd_container, test_container, etcd_container\<lparr>c_Name := ''sidecar''\<rparr>]
        ''backup-restore'' = Some test_container
   \<and> EnsureContainerWithName [etcd_container, test_container, etcd_container\<lparr>c_Name := ''sidecar''\<rparr>]
        (test_container\<lparr>c_Image := ''new-image''\<rparr>)
       = [etcd_container, test_container\<lparr>c_Image := ''new-image''\<rparr>,
          etcd_container\<lparr>c_Name := ''sidecar''\<rparr>]
   \<and> length (filter (\<lambda>x. c_Name x = ''backup-restore'')
        (EnsureContainerWithName
           [etcd_container, test_container, etcd_container\<lparr>c_Name := ''sidecar''\<rparr>]
           (test_container\<lparr>c_Image := ''new-image''\<rparr>))) = 1"
proof -
  let ?cs = "[etcd_container, test_container, etcd_container\<lparr>c_Name := ''sidecar''\<rparr>]"
  let ?c = "test_container\<lparr>c_Image := ''new-image''\<rparr>"
  have n: "c_Name test_container = ''backup-restore''" "c_Name ?c = ''backup-restore''"
    by (simp_all add: test_container_def)
  have h1: "ContainerWithName [etcd_container] (c_Name test_container) = None"
    by (simp add: ContainerWithName_def test_defs)
  have h2: "distinct (map c_Name ?cs)"
    by (simp add: test_defs)
  have h3: "ContainerWithName ?cs (c_Name ?c) = Some test_container"
    by (simp add: ContainerWithName_def test_defs)
  from upsert_container [of "[etcd_container]" test_container] h1
  have a: "EnsureContainerWithName [etcd_container] test_container = [etcd_container, test_container]"
    by simp
  from upsert_container [of ?cs ?c] h2 h3
  have b: "length (filter (\<lambda>x. c_Name x = c_Name ?c) (EnsureContainerWithName ?cs ?c)) = 1"
    by simp
  have c: "EnsureContainerWithName ?cs ?c
             = [etcd_container, ?c, etcd_container\<lparr>c_Name := ''sidecar''\<rparr>]"
    by (simp add: EnsureContainerWithName_def test_defs)
  from a b c h1 h2 h3 n show ?thesis by simp
qed

section \<open>Properties of the dispatcher\<close>

text \<open>
  C2. An object whose kind and name the dispatcher does not route (a service not named
  \<open>kube-apiserver\<close>, a deployment named none of \<open>kube-apiserver\<close>,
  \<open>kube-controller-manager\<close> and \<open>kube-scheduler\<close>, a stateful set named neither
  \<open>etcd-main\<close> nor \<open>etcd-events\<close>, an object of another kind) is returned by \<open>Mutate\<close>
  as it is, with no error, whatever the ensurer and the cluster lookup are.
\<close>

theorem Mutate_pass_through:
  "\<not> recognized (objectKind obj) (objectName obj) \<Longrightarrow> Mutate m obj = (obj, None)"
  by (cases obj)
     (auto simp: recognized_def DeploymentNameKubeAPIServer_def
        DeploymentNameKubeControllerManager_def DeploymentNameKubeScheduler_def
        StatefulSetNameETCDMain_def StatefulSetNameETCDEvents_def)

theorem Mutate_pass_through_witness:
  "Mutate test_mutator (ServiceObject test_service) = (ServiceObject test_service, None)
   \<and> Mutate test_mutator (DeploymentObject test_deployment) = (DeploymentObject test_deployment, None)
   \<and> Mutate test_mutator (StatefulSetObject (test_statefulSet ''test'' []))
       = (StatefulSetObject (test_statefulSet ''test'' []), None)
   \<and> Mutate test_mutator (OtherObject ''ConfigMap'' ''kube-apiserver'')
       = (OtherObject ''ConfigMap'' ''kube-apiserver'', None)
   \<and> snd (Mutate test_mutator (ServiceObject (test_service\<lparr>svc_Name := ''kube-apiserver''\<rparr>)))
       = Some (Err ''hook called'')"
proof -
  have h: "\<not> recognized (objectKind (ServiceObject test_service)) (objectName (ServiceObject test_service))"
    "\<not> recognized (objectKind (DeploymentObject test_deployment)) (objectName (DeploymentObject test_deployment))"
    "\<not> recognized (objectKind (StatefulSetObject (test_statefulSet ''test'' [])))
         (objectName (StatefulSetObject (test_statefulSet ''test'' [])))"
    "\<not> recognized (objectKind (OtherObject ''ConfigMap'' ''kube-apiserver''))
         (objectName (OtherObject ''ConfigMap'' ''kube-apiserver''))"
    by (simp_all add: recognized_def test_service_def test_deployment_def test_statefulSet_def)
  have r: "snd (Mutate test_mutator (ServiceObject (test_service\<lparr>svc_Name := ''kube-apiserver''\<rparr>)))
       = Some (Err ''hook called'')"
    by (simp add: test_mutator_def failing_Ensurer_def failing_hook_def test_service_def
          DeploymentNameKubeAPIServer_def)
  from h [THEN Mutate_pass_through, of test_mutator] r show ?thesis by simp
qed

section \<open>Properties of the values provider\<close>

lemma SetStringValue_other: "k \<noteq> key \<Longrightarrow> SetStringValue vals key v k = vals k"
  by (simp add: SetStringValue_def split: option.splits)

lemma SetStringValue_same:
  "SetStringValue vals key v key =
     (if IsEmptyString v then vals key else map_option VString v)"
  by (simp add: SetStringValue_def IsEmptyString_def split: option.splits)

lemma setPrivateClass_other: "k \<noteq> ''subnetID'' \<Longrightarrow> setPrivateClass vals classes k = vals k"
  by (induction classes) (simp_all add: SetStringValue_other)

lemma setDefaultClass_other:
  "k \<notin> {''floatingNetworkID'', ''floatingSubnetID'', ''subnetID''} \<Longrightarrow>
   setDefaultClass vals classes k = vals k"
  by (induction classes) (simp_all add: SetStringValue_other)

lemma setDefaultClass_first:
  "\<forall>x \<in> set pre. lbc_Name x \<noteq> DefaultLoadBalancerClass \<Longrightarrow>
   lbc_Name class = DefaultLoadBalancerClass \<Longrightarrow>
   setDefaultClass vals (pre @ class # post) =
     SetStringValue
       (SetStringValue
          (SetStringValue vals ''floatingNetworkID'' (FloatingNetworkID class))
          ''floatingSubnetID'' (FloatingSubnetID class))
       ''subnetID'' (SubnetID class)"
  by (induction pre) simp_all

lemma setDefaultClass_none:
  "\<forall>x \<in> set classes. lbc_Name x \<noteq> DefaultLoadBalancerClass \<Longrightarrow>
   setDefaultClass vals classes = vals"
  by (induction classes) simp_all

lemma appendFloatingClasses_eq:
  "appendFloatingClasses infraStatus acc classes =
     (if classes = [] then acc
      else Some ((case acc of None \<Rightarrow> [] | Some l \<Rightarrow> l) @ map (floatingClass infraStatus) classes))"
  by (induction classes arbitrary: acc) (simp_all split: option.splits)

text \<open>The map that the function returns, in one equation.\<close>

lemma getConfigChartValues_Inr:
  assumes "getConfigChartValues cpConfig infraStatus cloudProfileConfig cp c cluster = Inr vals"
  shows "\<exists>subnet. FindSubnetByPurpose (Subnets infraStatus) PurposeNodes = Inr subnet \<and>
     (let classes = classList (loadBalancerClasses cpConfig infraStatus cloudProfileConfig cluster);
          settings = cloudProfileSettings cloudProfileConfig cluster;
          base = [''kubernetesVersion'' \<mapsto> VString (GetKubernetesVersion cluster),
                  ''domainName'' \<mapsto> VString (DomainName c),
                  ''tenantName'' \<mapsto> VString (TenantName c),
                  ''username'' \<mapsto> VString (Username c),
                  ''password'' \<mapsto> VString (Password c),
                  ''lbProvider'' \<mapsto> VString (LoadBalancerProvider cpConfig),
                  ''floatingNetworkID'' \<mapsto> VString (FloatingPool_ID infraStatus),
                  ''subnetID'' \<mapsto> VString (subnet_ID subnet),
                  ''authUrl'' \<mapsto> VString (fst settings),
                  ''dhcpDomain'' \<mapsto> VStringPtr (fst (snd settings)),
                  ''requestTimeout'' \<mapsto> VStringPtr (snd (snd settings))];
          merged = setPrivateClass (setDefaultClass base classes) classes
      in vals = (if classes = [] then merged
                 else merged(''floatingClasses'' \<mapsto> VMaps (map (floatingClass infraStatus) classes))))"
  using assms
  by (auto simp: getConfigChartValues_def Let_def appendFloatingClasses_eq
           split: sum.splits prod.splits if_splits)

lemma getConfigChartValues_returns:
  "find (\<lambda>s. Purpose s = PurposeNodes) (Subnets infraStatus) \<noteq> None \<Longrightarrow>
   \<exists>vals. getConfigChartValues cpConfig infraStatus cloudProfileConfig cp c cluster = Inr vals"
  by (auto simp: getConfigChartValues_def FindSubnetByPurpose_def Let_def
        split: prod.splits option.splits)

lemmas values_defs = getConfigChartValues_def FindSubnetByPurpose_def PurposeNodes_def
  cloudProfileSettings_def loadBalancerClasses_def classList_def valueAt_def
  DefaultLoadBalancerClass_def PrivateLoadBalancerClass_def SetStringValue_def
  IsEmptyString_def floatingClass_def GetKubernetesVersion_def
  test_infraStatus_def test_credentials_def test_cloudProfileConfig_def core_cluster_def
  lbClass_def cpConfigWith_def two_default_classes_def

text \<open>
  C3 as stated fails: with two classes named \<open>default\<close> whose floating subnet IDs are
  \<open>first\<close> and \<open>last\<close>, in this order, the value under \<open>floatingSubnetID\<close> is \<open>first\<close>.
\<close>

theorem last_default_class_counterexample:
  "valueAt (getConfigChartValues two_default_classes test_infraStatus (Some test_cloudProfileConfig)
              ''test/control-plane'' test_credentials core_cluster) ''floatingSubnetID''
     = Some (VString ''first'')
   \<and> valueAt (getConfigChartValues two_default_classes test_infraStatus (Some test_cloudProfileConfig)
              ''test/control-plane'' test_credentials core_cluster) ''floatingSubnetID''
     \<noteq> Some (VString ''last'')"
  by (simp add: values_defs)

text \<open>
  C3, amended. The loop over the classes leaves at the first class named \<open>default\<close>:
  the value under \<open>floatingSubnetID\<close> is the floating subnet ID of the first class
  with that name in the order of the input, whatever classes follow it, and the key
  is absent when that ID is empty.
\<close>

theorem first_default_class_wins:
  assumes ret: "getConfigChartValues cpConfig infraStatus cloudProfileConfig cp c cluster = Inr vals"
    and classes: "classList (loadBalancerClasses cpConfig infraStatus cloudProfileConfig cluster)
                    = pre @ class # post"
    and pre: "\<forall>x \<in> set pre. lbc_Name x \<noteq> DefaultLoadBalancerClass"
    and name: "lbc_Name class = DefaultLoadBalancerClass"
  shows "vals ''floatingSubnetID'' =
           (if IsEmptyString (FloatingSubnetID class) then None
            else map_option VString (FloatingSubnetID class))"
proof -
  from getConfigChartValues_Inr [OF ret] classes
  obtain base where
    "vals = (setPrivateClass (setDefaultClass base (pre @ class # post)) (pre @ class # post))
              (''floatingClasses'' \<mapsto> VMaps (map (floatingClass infraStatus) (pre @ class # post)))"
    and base: "base ''floatingSubnetID'' = None"
    by (auto simp: Let_def)
  then have "vals ''floatingSubnetID'' = setDefaultClass base (pre @ class # post) ''floatingSubnetID''"
    by (simp add: setPrivateClass_other)
  also have "\<dots> = SetStringValue (SetStringValue base ''floatingNetworkID'' (FloatingNetworkID class))
                      ''floatingSubnetID'' (FloatingSubnetID class) ''floatingSubnetID''"
    by (simp add: setDefaultClass_first [OF pre name] SetStringValue_other)
  also have "\<dots> = (if IsEmptyString (FloatingSubnetID class) then None
            else map_option VString (FloatingSubnetID class))"
    by (simp add: SetStringValue_same SetStringValue_other base)
  finally show ?thesis .
qed

theorem first_default_class_wins_witness:
  "valueAt (getConfigChartValues two_default_classes test_infraStatus (Some test_cloudProfileConfig)
              ''test/control-plane'' test_credentials core_cluster) ''floatingSubnetID''
     = Some (VString ''first'')"
proof -
  let ?r = "getConfigChartValues two_default_classes test_infraStatus (Some test_cloudProfileConfig)
              ''test/control-plane'' test_credentials core_cluster"
  have sub: "find (\<lambda>s. Purpose s = PurposeNodes) (Subnets test_infraStatus) \<noteq> None"
    by (simp add: test_infraStatus_def PurposeNodes_def)
  from getConfigChartValues_returns [OF sub]
  obtain vals where ret: "?r = Inr vals"
    by blast
  have classes: "classList (loadBalancerClasses two_default_classes test_infraStatus
                   (Some test_cloudProfileConfig) core_cluster)
           = [] @ lbClass ''default'' (Some ''first'') None # [lbClass ''default'' (Some ''last'') None]"
    by (simp add: values_defs)
  have pre: "\<forall>x \<in> set []. lbc_Name x \<noteq> DefaultLoadBalancerClass" by simp
  have name: "lbc_Name (lbClass ''default'' (Some ''first'') None) = DefaultLoadBalancerClass"
    by (simp add: values_defs)
  from first_default_class_wins [OF ret classes pre name]
  have "vals ''floatingSubnetID'' = Some (VString ''first'')"
    by (simp add: values_defs)
  with ret show ?thesis by (simp add: valueAt_def)
qed

text \<open>
  C9 as stated fails: with a cloud profile configuration that has neither a DHCP
  domain nor a request timeout, the map has both keys, each with a \<open>nil\<close> pointer as
  its value.
\<close>

theorem absent_optional_fields_counterexample:
  "valueAt (getConfigChartValues (cpConfigWith None) test_infraStatus (Some test_cloudProfileConfig)
              ''test/control-plane'' test_credentials core_cluster) ''dhcpDomain''
     = Some (VStringPtr None)
   \<and> valueAt (getConfigChartValues (cpConfigWith None) test_infraStatus (Some test_cloudProfileConfig)
              ''test/control-plane'' test_credentials core_cluster) ''requestTimeout''
     = Some (VStringPtr None)
   \<and> DHCPDomain test_cloudProfileConfig = None \<and> RequestTimeout test_cloudProfileConfig = None"
  by (simp add: values_defs)

text \<open>
  C9, amended. The keys \<open>dhcpDomain\<close> and \<open>requestTimeout\<close> are in every map that
  \<open>getConfigChartValues\<close> returns. Their values are the pointers of the cloud profile:
  \<open>nil\<close> when the field is absent, never an empty string in its place.
\<close>

theorem optional_fields_always_present:
  assumes ret: "getConfigChartValues cpConfig infraStatus cloudProfileConfig cp c cluster = Inr vals"
  shows "vals ''dhcpDomain'' = Some (VStringPtr (fst (snd (cloudProfileSettings cloudProfileConfig cluster))))
       \<and> vals ''requestTimeout'' = Some (VStringPtr (snd (snd (cloudProfileSettings cloudProfileConfig cluster))))
       \<and> (CloudProfile cluster = None \<and> CoreCloudProfile cluster \<noteq> None \<longrightarrow>
            (\<forall>config. cloudProfileConfig = Some config \<longrightarrow>
               vals ''dhcpDomain'' = Some (VStringPtr (DHCPDomain config))
               \<and> vals ''requestTimeout'' = Some (VStringPtr (RequestTimeout config))))"
proof -
  from getConfigChartValues_Inr [OF ret]
  have "vals ''dhcpDomain'' = Some (VStringPtr (fst (snd (cloudProfileSettings cloudProfileConfig cluster))))
       \<and> vals ''requestTimeout'' = Some (VStringPtr (snd (snd (cloudProfileSettings cloudProfileConfig cluster))))"
    by (auto simp: Let_def setPrivateClass_other setDefaultClass_other)
  then show ?thesis
    by (auto simp: cloudProfileSettings_def)
qed

theorem optional_fields_always_present_witness:
  "valueAt (getConfigChartValues (cpConfigWith None) test_infraStatus (Some test_cloudProfileConfig)
              ''test/control-plane'' test_credentials core_cluster) ''dhcpDomain''
     = Some (VStringPtr None)
   \<and> valueAt (getConfigChartValues (cpConfigWith None) test_infraStatus
              (Some (test_cloudProfileConfig\<lparr>DHCPDomain := Some ''example.org''\<rparr>))
              ''test/control-plane'' test_credentials core_cluster) ''dhcpDomain''
     = Some (VStringPtr (Some ''example.org''))"
proof -
  let ?r = "\<lambda>config. getConfigChartValues (cpConfigWith None) test_infraStatus (Some config)
              ''test/control-plane'' test_credentials core_cluster"
  have sub: "find (\<lambda>s. Purpose s = PurposeNodes) (Subnets test_infraStatus) \<noteq> None"
    by (simp add: test_infraStatus_def PurposeNodes_def)
  from getConfigChartValues_returns [OF sub]
  obtain v1 v2 where ret: "?r test_cloudProfileConfig = Inr v1"
     "?r (test_cloudProfileConfig\<lparr>DHCPDomain := Some ''example.org''\<rparr>) = Inr v2"
    by metis
  have h: "CloudProfile core_cluster = None \<and> CoreCloudProfile core_cluster \<noteq> None"
    by (simp add: core_cluster_def)
  from optional_fields_always_present [OF ret(1)] optional_fields_always_present [OF ret(2)] h
  have "v1 ''dhcpDomain'' = Some (VStringPtr (DHCPDomain test_cloudProfileConfig))"
    "v2 ''dhcpDomain'' = Some (VStringPtr (DHCPDomain (test_cloudProfileConfig\<lparr>DHCPDomain := Some ''example.org''\<rparr>)))"
    by blast+
  with ret show ?thesis by (simp add: valueAt_def test_cloudProfileConfig_def)
qed

lemma floatingClass_floatingNetworkID:
  "floatingClass infraStatus class ''floatingNetworkID'' =
     (if \<not> IsEmptyString (FloatingSubnetID class) \<and> IsEmptyString (FloatingNetworkID class)
      then Some (VString (FloatingPool_ID infraStatus))
      else if IsEmptyString (FloatingNetworkID class) then None
      else map_option VString (FloatingNetworkID class))"
  by (simp add: floatingClass_def SetStringValue_other SetStringValue_same)

lemma loadBalancerClasses_given:
  "LoadBalancerClasses cpConfig = Some cs \<Longrightarrow>
   loadBalancerClasses cpConfig infraStatus cloudProfileConfig cluster = Some cs"
  by (simp add: loadBalancerClasses_def)

text \<open>
  C10. In a map that \<open>getConfigChartValues\<close> returns, the key \<open>floatingClasses\<close> is
  present exactly when \<open>cpConfig.LoadBalancerClasses\<close>, as the code leaves it before its
  loops, has at least one class; its value then holds the map of each class in order.
  In the map of a class with a floating subnet ID and no floating network ID, the
  floating network ID is the ID of the floating pool of the infrastructure status;
  otherwise it is the floating network ID of the class when that is not empty, and
  the key is absent when both are empty. The classes are those of the control plane
  configuration when it has any.
\<close>

theorem floating_classes:
  assumes ret: "getConfigChartValues cpConfig infraStatus cloudProfileConfig cp c cluster = Inr vals"
  shows "(let classes = classList (loadBalancerClasses cpConfig infraStatus cloudProfileConfig cluster)
          in (vals ''floatingClasses'' \<noteq> None \<longleftrightarrow> classes \<noteq> [])
             \<and> (classes \<noteq> [] \<longrightarrow>
                  vals ''floatingClasses'' = Some (VMaps (map (floatingClass infraStatus) classes)))
             \<and> (\<forall>class \<in> set classes.
                  (\<not> IsEmptyString (FloatingSubnetID class) \<and> IsEmptyString (FloatingNetworkID class)
                     \<longrightarrow> floatingClass infraStatus class ''floatingNetworkID''
                           = Some (VString (FloatingPool_ID infraStatus)))
                  \<and> (\<not> IsEmptyString (FloatingNetworkID class)
                     \<longrightarrow> floatingClass infraStatus class ''floatingNetworkID''
                           = map_option VString (FloatingNetworkID class))
                  \<and> (IsEmptyString (FloatingSubnetID class) \<and> IsEmptyString (FloatingNetworkID class)
                     \<longrightarrow> floatingClass infraStatus class ''floatingNetworkID'' = None)))
       \<and> (\<forall>cs. LoadBalancerClasses cpConfig = Some cs \<longrightarrow>
             classList (loadBalancerClasses cpConfig infraStatus cloudProfileConfig cluster) = cs)"
proof -
  let ?classes = "classList (loadBalancerClasses cpConfig infraStatus cloudProfileConfig cluster)"
  from getConfigChartValues_Inr [OF ret]
  obtain merged where v: "vals = (if ?classes = [] then merged
       else merged(''floatingClasses'' \<mapsto> VMaps (map (floatingClass infraStatus) ?classes)))"
    and m: "merged ''floatingClasses'' = None"
    by (auto simp: Let_def setPrivateClass_other setDefaultClass_other)
  from v m have a: "(vals ''floatingClasses'' \<noteq> None \<longleftrightarrow> ?classes \<noteq> [])"
    and b: "?classes \<noteq> [] \<longrightarrow>
             vals ''floatingClasses'' = Some (VMaps (map (floatingClass infraStatus) ?classes))"
    by auto
  have d: "\<forall>cs. LoadBalancerClasses cpConfig = Some cs \<longrightarrow> ?classes = cs"
    by (simp add: loadBalancerClasses_given classList_def)
  from a b d show ?thesis
    by (simp add: Let_def floatingClass_floatingNetworkID)
qed

theorem floating_classes_witness:
  "(case valueAt (getConfigChartValues
            (cpConfigWith (Some [lbClass ''default'' (Some ''fip-subnet'') None,
                                 lbClass ''other'' None (Some ''fip-network'')]))
            test_infraStatus (Some test_cloudProfileConfig) ''test/control-plane''
            test_credentials core_cluster) ''floatingClasses'' of
      Some (VMaps [m1, m2]) \<Rightarrow>
        m1 ''floatingNetworkID'' = Some (VString ''floating-network-id'')
        \<and> m2 ''floatingNetworkID'' = Some (VString ''fip-network'')
    | _ \<Rightarrow> False)
   \<and> valueAt (getConfigChartValues (cpConfigWith (Some [])) test_infraStatus
        (Some test_cloudProfileConfig) ''test/control-plane'' test_credentials core_cluster)
        ''floatingClasses'' = None"
proof -
  let ?cs = "[lbClass ''default'' (Some ''fip-subnet'') None, lbClass ''other'' None (Some ''fip-network'')]"
  let ?r = "\<lambda>cs. getConfigChartValues (cpConfigWith (Some cs)) test_infraStatus
        (Some test_cloudProfileConfig) ''test/control-plane'' test_credentials core_cluster"
  have sub: "find (\<lambda>s. Purpose s = PurposeNodes) (Subnets test_infraStatus) \<noteq> None"
    by (simp add: test_infraStatus_def PurposeNodes_def)
  from getConfigChartValues_returns [OF sub]
  obtain v1 v2 where ret: "?r ?cs = Inr v1" "?r [] = Inr v2"
    by metis
  have cl: "classList (loadBalancerClasses (cpConfigWith (Some cs)) test_infraStatus
              (Some test_cloudProfileConfig) core_cluster) = cs" for cs
    by (simp add: loadBalancerClasses_def classList_def cpConfigWith_def)
  from floating_classes [OF ret(1)]
  have a: "v1 ''floatingClasses'' = Some (VMaps (map (floatingClass test_infraStatus) ?cs))"
    and f: "\<forall>class \<in> set ?cs.
        (\<not> IsEmptyString (FloatingSubnetID class) \<and> IsEmptyString (FloatingNetworkID class)
           \<longrightarrow> floatingClass test_infraStatus class ''floatingNetworkID''
                 = Some (VString (FloatingPool_ID test_infraStatus)))
        \<and> (\<not> IsEmptyString (FloatingNetworkID class)
           \<longrightarrow> floatingClass test_infraStatus class ''floatingNetworkID''
                 = map_option VString (FloatingNetworkID class))"
    by (simp_all add: cl Let_def)
  from f have g: "floatingClass test_infraStatus (lbClass ''default'' (Some ''fip-subnet'') None)
             ''floatingNetworkID'' = Some (VString ''floating-network-id'')"
     "floatingClass test_infraStatus (lbClass ''other'' None (Some ''fip-network''))
             ''floatingNetworkID'' = Some (VString ''fip-network'')"
    by (simp_all add: lbClass_def IsEmptyString_def test_infraStatus_def)
  from floating_classes [OF ret(2)] have b: "v2 ''floatingClasses'' = None"
    by (simp add: cl Let_def)
  from a b g ret show ?thesis by (simp add: valueAt_def)
qed

end
